theory Spec2Isabelle
  imports Main "HOL-Library.Sublist"
begin

section \<open>The NETCONF radio-unit client of \<^verbatim>\<open>callHome.py\<close>\<close>

text \<open>
  The class \<^verbatim>\<open>NetconfRUClient\<close> is embedded with explicit state passing. Every
  method becomes a function from the state before the call to the outcome of the call
  (the value returned, or the exception that leaves the method) and the state after it.
  The state holds the fields of the object and what the method can change around it:
  the calls made on the \<^verbatim>\<open>ncclient\<close> session (as a recording session would
  see them), the lines printed and the files written.
\<close>

subsection \<open>Python values\<close>

text \<open>
  The exceptions that occur in the methods. \<open>TypeError\<close> is the one of
  \<^verbatim>\<open>x in None\<close>; \<open>AttributeError a\<close> is the one of \<^verbatim>\<open>None.a\<close>;
  \<open>LibraryError m\<close> is an exception raised inside \<^verbatim>\<open>ncclient\<close>, with
  \<^verbatim>\<open>str(e)\<close> equal to \<open>m\<close>; \<open>OSError m\<close> is the one \<^verbatim>\<open>open\<close> or a write to
  a file raises, with that text.
\<close>

datatype py_exception =
  TypeError | AttributeError string | LibraryError string | OSError string

fun str_of_exception :: "py_exception \<Rightarrow> string" where
  "str_of_exception TypeError =
     ''argument of type '' @ [CHR 0x27] @ ''NoneType'' @ [CHR 0x27] @ '' is not iterable''"
| "str_of_exception (AttributeError a) =
     [CHR 0x27] @ ''NoneType'' @ [CHR 0x27] @ '' object has no attribute '' @
     [CHR 0x27] @ a @ [CHR 0x27]"
| "str_of_exception (LibraryError m) = m"
| "str_of_exception (OSError m) = m"

datatype 'a outcome = Returned 'a | Raised py_exception

fun raises :: "'a outcome \<Rightarrow> bool" where
  "raises (Raised e) = True"
| "raises (Returned v) = False"

text \<open>Python's \<^verbatim>\<open>needle in haystack\<close> on strings: substring search.\<close>

fun contains :: "string \<Rightarrow> string \<Rightarrow> bool" where
  "contains needle [] = (needle = [])"
| "contains needle (c # cs) = (prefix needle (c # cs) \<or> contains needle cs)"

subsection \<open>The session and the state around the client\<close>

text \<open>
  The calls the methods make on \<^verbatim>\<open>self.session\<close>. A filter is passed either as
  text or, in \<^verbatim>\<open>get_available_streams\<close>, as the element \<^verbatim>\<open>to_ele\<close> builds from
  the text; \<^verbatim>\<open>dispatch\<close> takes such an element too. Both are represented by the text:
  \<^verbatim>\<open>to_ele\<close> is applied to texts fixed in the source only, which it parses.
\<close>

datatype filter_arg = FilterText string | FilterEle string

datatype request =
    Get "filter_arg option"
  | GetConfig string
  | EditConfig string string
  | Dispatch string
  | TakeNotification nat
  | CloseSession

text \<open>
  A session is what \<^verbatim>\<open>manager.connect\<close> returns. Its behaviour is a parameter: given
  the calls made so far and the present call, \<open>rpc_reply\<close> is either \<open>Inl m\<close>, an
  exception with text \<open>m\<close>, or \<open>Inr x\<close>, a reply whose \<^verbatim>\<open>.xml\<close> is \<open>x\<close>.
  \<open>notification_queue\<close> is what iterating over \<^verbatim>\<open>take_notification\<close> yields (the
  \<^verbatim>\<open>notification_xml\<close> of each item), or the exception.
\<close>

record session =
  server_capabilities :: "string list"
  rpc_reply :: "request list \<Rightarrow> request \<Rightarrow> string + string"
  notification_queue :: "request list \<Rightarrow> string + string list"

text \<open>The fields \<^verbatim>\<open>__init__\<close> sets (lines 12 to 18).\<close>

record client =
  host :: string
  port :: nat
  username :: string
  password :: string
  session :: "session option"
  response_file :: string
  capabilities_file :: string

text \<open>
  The client in its surroundings: \<open>sent\<close> lists the calls made on sessions, in order;
  \<open>stdout\<close> lists the printed lines; \<open>files\<close> maps a file name to its content.
  Two library functions are parameters: \<open>dom_pretty x\<close> is
  \<^verbatim>\<open>parseString(x).toprettyxml(indent="  ")\<close>, or \<open>Inl m\<close> when the parser raises;
  \<open>capabilities_doc cs\<close> is the pretty-printed document that \<^verbatim>\<open>save_capabilities\<close>
  builds from the capability strings \<open>cs\<close>. The file system is a parameter too:
  \<open>open_error p\<close> is \<open>Some m\<close> when \<^verbatim>\<open>open\<close> of the file \<open>p\<close> raises an error with
  text \<open>m\<close>, and \<open>write_error p\<close> is \<open>Some m\<close> when writing to the opened file does;
  a write that raises leaves nothing of its text in the file.
\<close>

record world = client +
  sent :: "request list"
  stdout :: "string list"
  files :: "string \<rightharpoonup> string"
  dom_pretty :: "string \<Rightarrow> string + string"
  capabilities_doc :: "string list \<Rightarrow> string"
  open_error :: "string \<Rightarrow> string option"
  write_error :: "string \<Rightarrow> string option"

definition init :: "string \<Rightarrow> nat \<Rightarrow> string \<Rightarrow> string \<Rightarrow> string \<Rightarrow> string \<Rightarrow> client" where
  "init h p u pw rf cf =
     \<lparr>host = h, port = p, username = u, password = pw, session = None,
      response_file = rf, capabilities_file = cf\<rparr>"

definition default_response_file :: string where
  "default_response_file = ''netconf_responses.xml''"

definition default_capabilities_file :: string where
  "default_capabilities_file = ''netconf_capabilty.xml''"

definition print :: "string \<Rightarrow> world \<Rightarrow> world" where
  "print line w = w\<lparr>stdout := stdout w @ [line]\<rparr>"

text \<open>
  A successful \<^verbatim>\<open>open(path, 'a')\<close> creates the file if there is none;
  a successful \<^verbatim>\<open>open(path, 'w')\<close> leaves it empty; a write adds to its end.
\<close>

definition open_append :: "string \<Rightarrow> world \<Rightarrow> world" where
  "open_append path w =
     w\<lparr>files := (files w)(path \<mapsto> (case files w path of None \<Rightarrow> [] | Some old \<Rightarrow> old))\<rparr>"

definition open_write :: "string \<Rightarrow> world \<Rightarrow> world" where
  "open_write path w = w\<lparr>files := (files w)(path \<mapsto> [])\<rparr>"

definition append_file :: "string \<Rightarrow> string \<Rightarrow> world \<Rightarrow> world" where
  "append_file path txt w =
     w\<lparr>files := (files w)(path \<mapsto> (case files w path of None \<Rightarrow> [] | Some old \<Rightarrow> old) @ txt)\<rparr>"

text \<open>One call on the session \<open>s\<close>: the reply, and the call recorded.\<close>

definition call_session :: "session \<Rightarrow> request \<Rightarrow> world \<Rightarrow> (string + string) \<times> world" where
  "call_session s r w = (rpc_reply s (sent w) r, w\<lparr>sent := sent w @ [r]\<rparr>)"

definition no_session_msg :: string where
  "no_session_msg = ''No active session to the RU. Please connect first.''"

subsection \<open>The request texts\<close>

text \<open>
  The triple-quoted (f-)strings of the methods, character by character, one line of the
  source per line. A formatted field is the text Python's formatting gives for the
  argument; the arguments are taken as that text.
\<close>

text \<open>\<^verbatim>\<open>filter_payload\<close> of \<^verbatim>\<open>check_supervision_status\<close> (line 91).\<close>

definition supervision_status_filter :: "string" where
  \<open>supervision_status_filter =
     ''\<newline>'' @
     ''        <filter xmlns="urn:ietf:params:xml:ns:netconf:base:1.0">\<newline>'' @
     ''          <supervision-status xmlns="urn:o-ran:supervision:1.0"/>\<newline>'' @
     ''        </filter>\<newline>'' @
     ''        ''\<close>

text \<open>\<^verbatim>\<open>subscription_rpc\<close> of \<^verbatim>\<open>subscribe_to_netconf_notifications\<close> (line 126).\<close>

definition subscription_rpc :: "string" where
  \<open>subscription_rpc =
     ''\<newline>'' @
     ''            <rpc xmlns="urn:ietf:params:xml:ns:netconf:base:1.0" message-id="101">\<newline>'' @
     ''                <create-subscription xmlns="urn:ietf:params:xml:ns:netmod:notification">\<newline>'' @
     ''                    <stream>NETCONF</stream>\<newline>'' @
     ''                </create-subscription>\<newline>'' @
     ''            </rpc>\<newline>'' @
     ''            ''\<close>

text \<open>\<^verbatim>\<open>filter_xml\<close> of \<^verbatim>\<open>get_available_streams\<close> (line 196).\<close>

definition streams_filter_xml :: "string" where
  \<open>streams_filter_xml =
     ''\<newline>'' @
     ''        <netconf xmlns="urn:ietf:params:xml:ns:netmod:notification">\<newline>'' @
     ''            <streams/>\<newline>'' @
     ''        </netconf>\<newline>'' @
     ''        ''\<close>

text \<open>\<^verbatim>\<open>config_payload\<close> of \<^verbatim>\<open>configure_call_home\<close> (line 233).\<close>

definition call_home_payload :: "string \<Rightarrow> string \<Rightarrow> string \<Rightarrow> string \<Rightarrow> string" where
  \<open>call_home_payload ipv4_address port_text interface_name sub_interface =
     ''\<newline>'' @
     ''        <config xmlns="urn:ietf:params:xml:ns:netconf:base:1.0">\<newline>'' @
     ''        <mplane-info xmlns="urn:o-ran:mplane-interfaces:1.0">\<newline>'' @
     ''            <m-plane-interfaces>\<newline>'' @
     ''            <m-plane-sub-interfaces>\<newline>'' @
     ''                <interface-name>'' @
     interface_name @
     ''</interface-name>\<newline>'' @
     ''                <sub-interface>'' @
     sub_interface @
     ''</sub-interface>\<newline>'' @
     ''                <client-info>\<newline>'' @
     ''                <mplane-ipv4-info>\<newline>'' @
     ''                    <mplane-ipv4>'' @
     ipv4_address @
     ''</mplane-ipv4>\<newline>'' @
     ''                    <port>'' @
     port_text @
     ''</port>\<newline>'' @
     ''                </mplane-ipv4-info>\<newline>'' @
     ''                </client-info>\<newline>'' @
     ''            </m-plane-sub-interfaces>\<newline>'' @
     ''            </m-plane-interfaces>\<newline>'' @
     ''        </mplane-info>\<newline>'' @
     ''        </config>\<newline>'' @
     ''        ''\<close>

text \<open>\<^verbatim>\<open>filter_payload\<close> of \<^verbatim>\<open>retrieve_tx_array_carrier_info\<close> (line 272).\<close>

definition tx_array_carriers_filter :: "string" where
  \<open>tx_array_carriers_filter =
     ''\<newline>'' @
     ''        <filter xmlns="urn:ietf:params:xml:ns:netconf:base:1.0">\<newline>'' @
     ''          <user-plane-configuration xmlns="urn:o-ran:uplane-conf:1.0">\<newline>'' @
     ''            <tx-array-carriers/>\<newline>'' @
     ''          </user-plane-configuration>\<newline>'' @
     ''        </filter>\<newline>'' @
     ''        ''\<close>

text \<open>\<^verbatim>\<open>filter_payload\<close> of \<^verbatim>\<open>retrieve_rx_array_carrier_info\<close> (line 299).\<close>

definition rx_array_carriers_filter :: "string" where
  \<open>rx_array_carriers_filter =
     ''\<newline>'' @
     ''        <filter xmlns="urn:ietf:params:xml:ns:netconf:base:1.0">\<newline>'' @
     ''          <user-plane-configuration xmlns="urn:o-ran:uplane-conf:1.0">\<newline>'' @
     ''            <rx-array-carriers/>\<newline>'' @
     ''          </user-plane-configuration>\<newline>'' @
     ''        </filter>\<newline>'' @
     ''        ''\<close>

text \<open>\<^verbatim>\<open>config_payload\<close> of \<^verbatim>\<open>configure_tx_array_carrier\<close> (line 332).\<close>

definition configure_tx_payload :: "string \<Rightarrow> string \<Rightarrow> string \<Rightarrow> string \<Rightarrow> string \<Rightarrow> string" where
  \<open>configure_tx_payload name center_of_channel_bandwidth absolute_frequency_center channel_bandwidth gain =
     ''\<newline>'' @
     ''        <config xmlns="urn:ietf:params:xml:ns:netconf:base:1.0">\<newline>'' @
     ''          <user-plane-configuration xmlns="urn:o-ran:uplane-conf:1.0">\<newline>'' @
     ''            <tx-array-carriers>\<newline>'' @
     ''              <name>'' @
     name @
     ''</name>\<newline>'' @
     ''              <center-of-channel-bandwidth>'' @
     center_of_channel_bandwidth @
     ''</center-of-channel-bandwidth>\<newline>'' @
     ''              <absolute-frequency-center>'' @
     absolute_frequency_center @
     ''</absolute-frequency-center>\<newline>'' @
     ''              <channel-bandwidth>'' @
     channel_bandwidth @
     ''</channel-bandwidth>\<newline>'' @
     ''              <type>NR</type>\<newline>'' @
     ''              <gain>'' @
     gain @
     ''</gain>\<newline>'' @
     ''              <downlink-radio-frame-offset>0</downlink-radio-frame-offset>\<newline>'' @
     ''              <downlink-sfn-offset>0</downlink-sfn-offset>\<newline>'' @
     ''            </tx-array-carriers>\<newline>'' @
     ''          </user-plane-configuration>\<newline>'' @
     ''        </config>\<newline>'' @
     ''        ''\<close>

text \<open>\<^verbatim>\<open>config_payload\<close> of \<^verbatim>\<open>configure_rx_array_carrier\<close> (line 375).\<close>

definition configure_rx_payload :: "string \<Rightarrow> string \<Rightarrow> string \<Rightarrow> string \<Rightarrow> string \<Rightarrow> string \<Rightarrow> string" where
  \<open>configure_rx_payload name center_of_channel_bandwidth absolute_frequency_center channel_bandwidth gain_correction n_ta_offset =
     ''\<newline>'' @
     ''        <config xmlns="urn:ietf:params:xml:ns:netconf:base:1.0">\<newline>'' @
     ''          <user-plane-configuration xmlns="urn:o-ran:uplane-conf:1.0">\<newline>'' @
     ''            <rx-array-carriers>\<newline>'' @
     ''              <name>'' @
     name @
     ''</name>\<newline>'' @
     ''              <center-of-channel-bandwidth>'' @
     center_of_channel_bandwidth @
     ''</center-of-channel-bandwidth>\<newline>'' @
     ''              <absolute-frequency-center>'' @
     absolute_frequency_center @
     ''</absolute-frequency-center>\<newline>'' @
     ''              <channel-bandwidth>'' @
     channel_bandwidth @
     ''</channel-bandwidth>\<newline>'' @
     ''              <type>NR</type>\<newline>'' @
     ''              <downlink-radio-frame-offset>0</downlink-radio-frame-offset>\<newline>'' @
     ''              <downlink-sfn-offset>0</downlink-sfn-offset>\<newline>'' @
     ''              <gain-correction>'' @
     gain_correction @
     ''</gain-correction>\<newline>'' @
     ''              <n-ta-offset>'' @
     n_ta_offset @
     ''</n-ta-offset>\<newline>'' @
     ''            </rx-array-carriers>\<newline>'' @
     ''          </user-plane-configuration>\<newline>'' @
     ''        </config>\<newline>'' @
     ''        ''\<close>

text \<open>\<^verbatim>\<open>config_payload\<close> of \<^verbatim>\<open>delete_tx_array_carrier\<close> (line 413).\<close>

definition delete_tx_payload :: "string \<Rightarrow> string \<Rightarrow> string \<Rightarrow> string \<Rightarrow> string \<Rightarrow> string" where
  \<open>delete_tx_payload name center_of_channel_bandwidth absolute_frequency_center channel_bandwidth gain =
     ''\<newline>'' @
     ''        <config xmlns="urn:ietf:params:xml:ns:netconf:base:1.0">\<newline>'' @
     ''          <user-plane-configuration xmlns="urn:o-ran:uplane-conf:1.0">\<newline>'' @
     ''            <tx-array-carriers nc:operation="delete"\<newline>'' @
     ''              xmlns:nc="urn:ietf:params:xml:ns:netconf:base:1.0">\<newline>'' @
     ''              <name>'' @
     name @
     ''</name>\<newline>'' @
     ''              <center-of-channel-bandwidth>'' @
     center_of_channel_bandwidth @
     ''</center-of-channel-bandwidth>\<newline>'' @
     ''              <absolute-frequency-center>'' @
     absolute_frequency_center @
     ''</absolute-frequency-center>\<newline>'' @
     ''              <channel-bandwidth>'' @
     channel_bandwidth @
     ''</channel-bandwidth>\<newline>'' @
     ''              <type>NR</type>\<newline>'' @
     ''              <gain>'' @
     gain @
     ''</gain>\<newline>'' @
     ''              <downlink-radio-frame-offset>0</downlink-radio-frame-offset>\<newline>'' @
     ''              <downlink-sfn-offset>0</downlink-sfn-offset>\<newline>'' @
     ''            </tx-array-carriers>\<newline>'' @
     ''          </user-plane-configuration>\<newline>'' @
     ''        </config>\<newline>'' @
     ''        ''\<close>

text \<open>\<^verbatim>\<open>config_payload\<close> of \<^verbatim>\<open>delete_rx_array_carrier\<close> (line 451).\<close>

definition delete_rx_payload :: "string \<Rightarrow> string \<Rightarrow> string \<Rightarrow> string \<Rightarrow> string \<Rightarrow> string \<Rightarrow> string" where
  \<open>delete_rx_payload name center_of_channel_bandwidth absolute_frequency_center channel_bandwidth gain_correction n_ta_offset =
     ''\<newline>'' @
     ''        <config xmlns="urn:ietf:params:xml:ns:netconf:base:1.0">\<newline>'' @
     ''          <user-plane-configuration xmlns="urn:o-ran:uplane-conf:1.0">\<newline>'' @
     ''            <rx-array-carriers nc:operation="delete"\<newline>'' @
     ''              xmlns:nc="urn:ietf:params:xml:ns:netconf:base:1.0">\<newline>'' @
     ''              <name>'' @
     name @
     ''</name>\<newline>'' @
     ''              <center-of-channel-bandwidth>'' @
     center_of_channel_bandwidth @
     ''</center-of-channel-bandwidth>\<newline>'' @
     ''              <absolute-frequency-center>'' @
     absolute_frequency_center @
     ''</absolute-frequency-center>\<newline>'' @
     ''              <channel-bandwidth>'' @
     channel_bandwidth @
     ''</channel-bandwidth>\<newline>'' @
     ''              <type>NR</type>\<newline>'' @
     ''              <downlink-radio-frame-offset>0</downlink-radio-frame-offset>\<newline>'' @
     ''              <downlink-sfn-offset>0</downlink-sfn-offset>\<newline>'' @
     ''              <gain-correction>'' @
     gain_correction @
     ''</gain-correction>\<newline>'' @
     ''              <n-ta-offset>'' @
     n_ta_offset @
     ''</n-ta-offset>\<newline>'' @
     ''              <active>INACTIVE</active>\<newline>'' @
     ''            </rx-array-carriers>\<newline>'' @
     ''          </user-plane-configuration>\<newline>'' @
     ''        </config>\<newline>'' @
     ''        ''\<close>

text \<open>\<^verbatim>\<open>filter_payload\<close> of \<^verbatim>\<open>retrieve_carrier_status\<close> (line 510).\<close>

definition carrier_status_filter :: "string \<Rightarrow> string \<Rightarrow> string" where
  \<open>carrier_status_filter tx_name rx_name =
     ''\<newline>'' @
     ''        <filter xmlns="urn:ietf:params:xml:ns:netconf:base:1.0">\<newline>'' @
     ''          <user-plane-configuration xmlns="urn:o-ran:uplane-conf:1.0">\<newline>'' @
     ''            <tx-array-carriers>\<newline>'' @
     ''              <name>'' @
     tx_name @
     ''</name>\<newline>'' @
     ''              <active/>\<newline>'' @
     ''            </tx-array-carriers>\<newline>'' @
     ''            <rx-array-carriers>\<newline>'' @
     ''              <name>'' @
     rx_name @
     ''</name>\<newline>'' @
     ''              <active/>\<newline>'' @
     ''            </rx-array-carriers>\<newline>'' @
     ''          </user-plane-configuration>\<newline>'' @
     ''        </filter>\<newline>'' @
     ''        ''\<close>

text \<open>\<^verbatim>\<open>config_payload\<close> of \<^verbatim>\<open>activate_carriers\<close> (line 562).\<close>

definition activate_payload :: "string \<Rightarrow> string \<Rightarrow> string" where
  \<open>activate_payload tx_name rx_name =
     ''\<newline>'' @
     ''        <config xmlns="urn:ietf:params:xml:ns:netconf:base:1.0">\<newline>'' @
     ''          <user-plane-configuration xmlns="urn:o-ran:uplane-conf:1.0">\<newline>'' @
     ''            <tx-array-carriers>\<newline>'' @
     ''              <name>'' @
     tx_name @
     ''</name>\<newline>'' @
     ''              <active>ACTIVE</active>\<newline>'' @
     ''            </tx-array-carriers>\<newline>'' @
     ''            <rx-array-carriers>\<newline>'' @
     ''              <name>'' @
     rx_name @
     ''</name>\<newline>'' @
     ''              <active>ACTIVE</active>\<newline>'' @
     ''            </rx-array-carriers>\<newline>'' @
     ''          </user-plane-configuration>\<newline>'' @
     ''        </config>\<newline>'' @
     ''        ''\<close>

text \<open>\<^verbatim>\<open>config_payload\<close> of \<^verbatim>\<open>deactivate_carriers\<close> (line 605).\<close>

definition deactivate_payload :: "string \<Rightarrow> string \<Rightarrow> string" where
  \<open>deactivate_payload tx_name rx_name =
     ''\<newline>'' @
     ''        <config xmlns="urn:ietf:params:xml:ns:netconf:base:1.0">\<newline>'' @
     ''          <user-plane-configuration xmlns="urn:o-ran:uplane-conf:1.0">\<newline>'' @
     ''            <tx-array-carriers>\<newline>'' @
     ''              <name>'' @
     tx_name @
     ''</name>\<newline>'' @
     ''              <active>INACTIVE</active>\<newline>'' @
     ''            </tx-array-carriers>\<newline>'' @
     ''            <rx-array-carriers>\<newline>'' @
     ''              <name>'' @
     rx_name @
     ''</name>\<newline>'' @
     ''              <active>INACTIVE</active>\<newline>'' @
     ''            </rx-array-carriers>\<newline>'' @
     ''          </user-plane-configuration>\<newline>'' @
     ''        </config>\<newline>'' @
     ''        ''\<close>

text \<open>\<^verbatim>\<open>filter_payload\<close> of \<^verbatim>\<open>retrieve_ru_states\<close> (line 641).\<close>

definition ru_states_filter :: "string" where
  \<open>ru_states_filter =
     ''\<newline>'' @
     ''        <filter xmlns="urn:ietf:params:xml:ns:netconf:base:1.0">\<newline>'' @
     ''          <hardware xmlns="urn:ietf:params:xml:ns:yang:ietf-hardware">\<newline>'' @
     ''            <component>\<newline>'' @
     ''              <name>benetel_RU</name>\<newline>'' @
     ''              <state/>\<newline>'' @
     ''            </component>\<newline>'' @
     ''          </hardware>\<newline>'' @
     ''        </filter>\<newline>'' @
     ''        ''\<close>

subsection \<open>The watchdog-reset element\<close>

text \<open>
  \<^verbatim>\<open>reset_supervision_watchdog\<close> builds its RPC with \<^verbatim>\<open>xml.etree.ElementTree\<close>
  (lines 156 to 174). An element has a tag, attributes in insertion order, an optional
  text and children; \<open>tostring\<close> is the serialisation of \<^verbatim>\<open>ET.tostring\<close> for
  elements with plain tags and attribute names (no declaration is written for the
  encoding \<^verbatim>\<open>utf-8\<close>).
\<close>

datatype element = Element string "(string \<times> string) list" "string option" "element list"

fun escape_cdata :: "string \<Rightarrow> string" where
  "escape_cdata [] = []"
| "escape_cdata (c # cs) =
     (if c = CHR ''&'' then ''&amp;''
      else if c = CHR ''<'' then ''&lt;''
      else if c = CHR ''>'' then ''&gt;''
      else [c]) @ escape_cdata cs"

fun escape_attrib :: "string \<Rightarrow> string" where
  "escape_attrib [] = []"
| "escape_attrib (c # cs) =
     (if c = CHR ''&'' then ''&amp;''
      else if c = CHR ''<'' then ''&lt;''
      else if c = CHR ''>'' then ''&gt;''
      else if c = CHR 0x22 then ''&quot;''
      else if c = CHR 0x0D then ''&#13;''
      else if c = CHR 0x0A then ''&#10;''
      else if c = CHR 0x09 then ''&#09;''
      else [c]) @ escape_attrib cs"

fun tostring :: "element \<Rightarrow> string" where
  "tostring (Element tg attrs txt kids) =
     ''<'' @ tg @
     concat (map (\<lambda>(k, v). '' '' @ k @ ''='' @ [CHR 0x22] @ escape_attrib v @ [CHR 0x22]) attrs) @
     (if (txt \<noteq> None \<and> txt \<noteq> Some []) \<or> kids \<noteq> [] then
        ''>'' @ (case txt of None \<Rightarrow> [] | Some t \<Rightarrow> escape_cdata t) @
        concat (map tostring kids) @ ''</'' @ tg @ ''>''
      else '' />'')"

text \<open>The text of the first child with the given tag (\<^verbatim>\<open>Element.findtext\<close>).\<close>

fun findtext :: "string \<Rightarrow> element \<Rightarrow> string option" where
  "findtext tg (Element t attrs txt []) = None"
| "findtext tg (Element t attrs txt (Element t' attrs' txt' kids' # kids)) =
     (if t' = tg then (case txt' of None \<Rightarrow> Some [] | Some x \<Rightarrow> Some x)
      else findtext tg (Element t attrs txt kids))"

fun find_child :: "string \<Rightarrow> element \<Rightarrow> element option" where
  "find_child tg (Element t attrs txt []) = None"
| "find_child tg (Element t attrs txt (Element t' attrs' txt' kids' # kids)) =
     (if t' = tg then Some (Element t' attrs' txt' kids')
      else find_child tg (Element t attrs txt kids))"

definition notification_interval :: element where
  "notification_interval = Element ''supervision-notification-interval'' [] (Some ''60000'') []"

definition guard_timer_overhead :: element where
  "guard_timer_overhead = Element ''guard-timer-overhead'' [] (Some ''5'') []"

definition supervision_reset :: element where
  \<open>supervision_reset =
     Element ''supervision-watchdog-reset'' [(''xmlns'', ''urn:o-ran:supervision:1.0'')] None
       [notification_interval, guard_timer_overhead]\<close>

definition rpc :: element where
  \<open>rpc =
     Element ''rpc''
       [(''xmlns'', ''urn:ietf:params:xml:ns:netconf:base:1.0''), (''message-id'', ''1'')] None
       [supervision_reset]\<close>

definition watchdog_reset_rpc :: string where
  "watchdog_reset_rpc = tostring rpc"

subsection \<open>The methods\<close>

text \<open>
  \<^verbatim>\<open>manager.connect\<close> is a parameter of \<open>connect\<close>: from the host, port, user name
  and password it gives a session, or \<open>Inl m\<close> when it raises.
\<close>

type_synonym manager = "string \<Rightarrow> nat \<Rightarrow> string \<Rightarrow> string \<Rightarrow> string + session"

definition quoted :: "string \<Rightarrow> string" where
  "quoted s = [CHR 0x27] @ s @ [CHR 0x27]"

text \<open>\<^verbatim>\<open>connect\<close> (lines 20 to 35).\<close>

definition connect :: "manager \<Rightarrow> world \<Rightarrow> unit outcome \<times> world" where
  "connect mgr w =
     (case mgr (host w) (port w) (username w) (password w) of
        Inr s \<Rightarrow>
          (Returned (),
           print (''Successfully connected to RU at '' @ host w) (w\<lparr>session := Some s\<rparr>))
      | Inl e \<Rightarrow>
          (Returned (), (print (''Failed to connect to RU: '' @ e) w)\<lparr>session := None\<rparr>))"

text \<open>
  \<^verbatim>\<open>save_to_file\<close> (lines 37 to 54). The parsing, the \<^verbatim>\<open>open\<close> and the writes
  are inside the \<^verbatim>\<open>try\<close>: whichever raises, the handler prints the failure, and
  \<^verbatim>\<open>save_to_file\<close> itself never raises.
\<close>

definition save_to_file :: "string \<Rightarrow> string \<Rightarrow> world \<Rightarrow> world" where
  "save_to_file xml_data message w =
     (case dom_pretty w xml_data of
        Inl e \<Rightarrow> print (''Failed to save XML response: '' @ e) w
      | Inr pretty_xml \<Rightarrow>
          (case open_error w (response_file w) of
             Some e \<Rightarrow> print (''Failed to save XML response: '' @ e) w
           | None \<Rightarrow>
               (case write_error w (response_file w) of
                  Some e \<Rightarrow>
                    print (''Failed to save XML response: '' @ e)
                      (open_append (response_file w) w)
                | None \<Rightarrow>
                    print (''Response saved to '' @ response_file w)
                      (append_file (response_file w)
                         ((if message \<noteq> []
                           then ''\<newline>'' @ ''<!-- '' @ message @ '' -->\<newline>'' else []) @
                          pretty_xml @ ''\<newline>'')
                         (open_append (response_file w) w)))))"

text \<open>
  \<^verbatim>\<open>save_capabilities\<close> (lines 56 to 80). The \<^verbatim>\<open>open\<close> and the write of lines
  77 and 78 are outside every \<^verbatim>\<open>try\<close>: an error of theirs leaves the method.
\<close>

definition save_capabilities :: "world \<Rightarrow> unit outcome \<times> world" where
  "save_capabilities w =
     (case session w of
        None \<Rightarrow> (Returned (), print no_session_msg w)
      | Some s \<Rightarrow>
          (case open_error w (capabilities_file w) of
             Some e \<Rightarrow> (Raised (OSError e), w)
           | None \<Rightarrow>
               (case write_error w (capabilities_file w) of
                  Some e \<Rightarrow> (Raised (OSError e), open_write (capabilities_file w) w)
                | None \<Rightarrow>
                    (Returned (),
                     print (''Capabilities saved to '' @ capabilities_file w)
                       (append_file (capabilities_file w)
                          (capabilities_doc w (server_capabilities s))
                          (open_write (capabilities_file w) w))))))"

text \<open>\<^verbatim>\<open>check_supervision_status\<close> (lines 82 to 115).\<close>

definition check_supervision_status :: "world \<Rightarrow> string option outcome \<times> world" where
  "check_supervision_status w =
     (case session w of
        None \<Rightarrow> (Returned None, print no_session_msg w)
      | Some s \<Rightarrow>
          (case call_session s (Get (Some (FilterText supervision_status_filter))) w of
             (Inl e, w1) \<Rightarrow>
               (Returned None, print (''Failed to retrieve supervision status: '' @ e) w1)
           | (Inr xml_str, w1) \<Rightarrow>
               (let w2 = save_to_file xml_str ''Supervision Status Retrieval'' w1 in
                if contains ''<supervision-status>unsupervised</supervision-status>'' xml_str then
                  (Returned (Some ''unsupervised''),
                   print ''Current supervision status: UNSUPERVISED'' w2)
                else if contains ''<supervision-status>supervised</supervision-status>'' xml_str then
                  (Returned (Some ''supervised''),
                   print ''Current supervision status: SUPERVISED'' w2)
                else
                  (Returned (Some ''unsupervised''),
                   print ''Supervision status not found in the response.'' w2))))"

text \<open>
  \<^verbatim>\<open>subscribe_to_netconf_notifications\<close> (lines 120 to 145). There is no test of the
  session: on \<^verbatim>\<open>None\<close> the attribute \<^verbatim>\<open>dispatch\<close> is missing, and the handler
  catches that.
\<close>

definition subscribe_to_netconf_notifications :: "world \<Rightarrow> string option outcome \<times> world" where
  "subscribe_to_netconf_notifications w =
     (case session w of
        None \<Rightarrow>
          (Returned None,
           print (''Failed to subscribe: '' @ str_of_exception (AttributeError ''dispatch'')) w)
      | Some s \<Rightarrow>
          (case call_session s (Dispatch subscription_rpc) w of
             (Inl e, w1) \<Rightarrow> (Returned None, print (''Failed to subscribe: '' @ e) w1)
           | (Inr xml, w1) \<Rightarrow>
               (Returned (Some xml),
                save_to_file xml ''Supervision Mode entered''
                  (print ''Subscribed to the supervision notification stream successfully.'' w1))))"

text \<open>\<^verbatim>\<open>reset_supervision_watchdog\<close> (lines 147 to 190).\<close>

definition reset_supervision_watchdog :: "world \<Rightarrow> string option outcome \<times> world" where
  "reset_supervision_watchdog w =
     (case session w of
        None \<Rightarrow> (Returned None, print no_session_msg w)
      | Some s \<Rightarrow>
          (case call_session s (Dispatch watchdog_reset_rpc) w of
             (Inl e, w1) \<Rightarrow>
               (Returned None, print (''Failed to reset supervision watchdog: '' @ e) w1)
           | (Inr xml, w1) \<Rightarrow>
               (Returned (Some xml),
                save_to_file xml ''Supervision Watchdog Reset''
                  (print ''Supervision watchdog reset successfully.'' w1))))"

text \<open>\<^verbatim>\<open>get_available_streams\<close> (lines 192 to 206). No test of the session either.\<close>

definition get_available_streams :: "world \<Rightarrow> unit outcome \<times> world" where
  "get_available_streams w =
     (case session w of
        None \<Rightarrow>
          (Returned (),
           print (''Error retrieving notification streams: '' @
                  str_of_exception (AttributeError ''get'')) w)
      | Some s \<Rightarrow>
          (case call_session s (Get (Some (FilterEle streams_filter_xml))) w of
             (Inl e, w1) \<Rightarrow>
               (Returned (), print (''Error retrieving notification streams: '' @ e) w1)
           | (Inr xml, w1) \<Rightarrow>
               (Returned (), save_to_file xml ''Available Notification Streams'' w1)))"

text \<open>\<^verbatim>\<open>receive_notifications\<close> (lines 207 to 222).\<close>

definition receive_notifications :: "world \<Rightarrow> unit outcome \<times> world" where
  "receive_notifications w =
     (case session w of
        None \<Rightarrow> (Returned (), print no_session_msg w)
      | Some s \<Rightarrow>
          (let w1 = print ''Waiting for notifications...'' w;
               w2 = w1\<lparr>sent := sent w1 @ [TakeNotification 10]\<rparr>
           in case notification_queue s (sent w1) of
                Inl e \<Rightarrow> (Returned (), print (''Failed to receive notifications: '' @ e) w2)
              | Inr ns \<Rightarrow>
                  (Returned (),
                   foldl (\<lambda>v n. save_to_file n ''Supervision Notification Received''
                                  (print (''Received Notification: '' @ n) v)) w2 ns)))"

text \<open>
  \<^verbatim>\<open>configure_call_home\<close> (lines 224 to 261); the defaults of the last two arguments
  are \<open>default_interface_name\<close> and \<open>default_sub_interface\<close>.
\<close>

definition default_interface_name :: string where
  "default_interface_name = ''MPLANE-INTERFACE''"

definition default_sub_interface :: string where
  "default_sub_interface = ''10''"

definition configure_call_home ::
  "string \<Rightarrow> string \<Rightarrow> string \<Rightarrow> string \<Rightarrow> world \<Rightarrow> string option outcome \<times> world" where
  "configure_call_home ipv4_address port_text interface_name sub_interface w =
     (case session w of
        None \<Rightarrow> (Returned None, print no_session_msg w)
      | Some s \<Rightarrow>
          (case call_session s
                  (EditConfig ''running''
                     (call_home_payload ipv4_address port_text interface_name sub_interface)) w of
             (Inl e, w1) \<Rightarrow> (Returned None, print (''Failed to configure Call Home: '' @ e) w1)
           | (Inr xml, w1) \<Rightarrow>
               (Returned (Some xml),
                save_to_file xml ''Call Home Configuration Response''
                  (print (''Call Home configuration applied for '' @ ipv4_address @ '':'' @
                          port_text) w1))))"

text \<open>\<^verbatim>\<open>retrieve_tx_array_carrier_info\<close> (lines 263 to 288).\<close>

definition retrieve_tx_array_carrier_info :: "world \<Rightarrow> string option outcome \<times> world" where
  "retrieve_tx_array_carrier_info w =
     (case session w of
        None \<Rightarrow> (Returned None, print no_session_msg w)
      | Some s \<Rightarrow>
          (case call_session s (Get (Some (FilterText tx_array_carriers_filter))) w of
             (Inl e, w1) \<Rightarrow>
               (Returned None,
                print (''Failed to retrieve TX array carrier information: '' @ e) w1)
           | (Inr xml_str, w1) \<Rightarrow>
               (Returned (Some xml_str),
                save_to_file xml_str ''TX Array Carrier Information'' w1)))"

text \<open>\<^verbatim>\<open>retrieve_rx_array_carrier_info\<close> (lines 290 to 315).\<close>

definition retrieve_rx_array_carrier_info :: "world \<Rightarrow> string option outcome \<times> world" where
  "retrieve_rx_array_carrier_info w =
     (case session w of
        None \<Rightarrow> (Returned None, print no_session_msg w)
      | Some s \<Rightarrow>
          (case call_session s (Get (Some (FilterText rx_array_carriers_filter))) w of
             (Inl e, w1) \<Rightarrow>
               (Returned None,
                print (''Failed to retrieve RX array carrier information: '' @ e) w1)
           | (Inr xml_str, w1) \<Rightarrow>
               (Returned (Some xml_str),
                save_to_file xml_str ''RX Array Carrier Information'' w1)))"

text \<open>
  \<^verbatim>\<open>configure_tx_array_carrier\<close> (lines 317 to 358). The membership test of line 327
  is outside every \<^verbatim>\<open>try\<close>: on \<^verbatim>\<open>None\<close> it raises a \<^verbatim>\<open>TypeError\<close> that
  leaves the method.
\<close>

definition configure_tx_array_carrier ::
  "string \<Rightarrow> string \<Rightarrow> string \<Rightarrow> string \<Rightarrow> string \<Rightarrow> world \<Rightarrow> string option outcome \<times> world" where
  "configure_tx_array_carrier name center_of_channel_bandwidth absolute_frequency_center
       channel_bandwidth gain w =
     (case session w of
        None \<Rightarrow> (Returned None, print no_session_msg w)
      | Some s \<Rightarrow>
          (case retrieve_tx_array_carrier_info w of
             (Raised e, w1) \<Rightarrow> (Raised e, w1)
           | (Returned None, w1) \<Rightarrow> (Raised TypeError, w1)
           | (Returned (Some tx_info), w1) \<Rightarrow>
               if contains (''<name>'' @ name @ ''</name>'') tx_info then
                 (Returned None,
                  print (''TX Array Carrier '' @ quoted name @
                         '' already exists, skipping configuration.'') w1)
               else
                 (case call_session s
                         (EditConfig ''running''
                            (configure_tx_payload name center_of_channel_bandwidth
                               absolute_frequency_center channel_bandwidth gain)) w1 of
                    (Inl e, w2) \<Rightarrow>
                      (Returned None, print (''Failed to configure TX array carrier: '' @ e) w2)
                  | (Inr xml, w2) \<Rightarrow>
                      (Returned (Some xml),
                       save_to_file xml ''TX Array Carrier Configuration''
                         (print (''TX Array Carrier '' @ quoted name @
                                 '' configured successfully.'') w2)))))"

text \<open>\<^verbatim>\<open>configure_rx_array_carrier\<close> (lines 360 to 402).\<close>

definition configure_rx_array_carrier ::
  "string \<Rightarrow> string \<Rightarrow> string \<Rightarrow> string \<Rightarrow> string \<Rightarrow> string \<Rightarrow> world \<Rightarrow>
   string option outcome \<times> world" where
  "configure_rx_array_carrier name center_of_channel_bandwidth absolute_frequency_center
       channel_bandwidth gain_correction n_ta_offset w =
     (case session w of
        None \<Rightarrow> (Returned None, print no_session_msg w)
      | Some s \<Rightarrow>
          (case retrieve_rx_array_carrier_info w of
             (Raised e, w1) \<Rightarrow> (Raised e, w1)
           | (Returned None, w1) \<Rightarrow> (Raised TypeError, w1)
           | (Returned (Some rx_info), w1) \<Rightarrow>
               if contains (''<name>'' @ name @ ''</name>'') rx_info then
                 (Returned None,
                  print (''RX Array Carrier '' @ quoted name @
                         '' already exists, skipping configuration.'') w1)
               else
                 (case call_session s
                         (EditConfig ''running''
                            (configure_rx_payload name center_of_channel_bandwidth
                               absolute_frequency_center channel_bandwidth gain_correction
                               n_ta_offset)) w1 of
                    (Inl e, w2) \<Rightarrow>
                      (Returned None, print (''Failed to configure RX array carrier: '' @ e) w2)
                  | (Inr xml, w2) \<Rightarrow>
                      (Returned (Some xml),
                       save_to_file xml ''RX Array Carrier Configuration''
                         (print (''RX Array Carrier '' @ quoted name @
                                 '' configured successfully.'') w2)))))"

text \<open>\<^verbatim>\<open>delete_tx_array_carrier\<close> (lines 404 to 440).\<close>

definition delete_tx_array_carrier ::
  "string \<Rightarrow> string \<Rightarrow> string \<Rightarrow> string \<Rightarrow> string \<Rightarrow> world \<Rightarrow> string option outcome \<times> world" where
  "delete_tx_array_carrier name center_of_channel_bandwidth absolute_frequency_center
       channel_bandwidth gain w =
     (case session w of
        None \<Rightarrow> (Returned None, print no_session_msg w)
      | Some s \<Rightarrow>
          (case call_session s
                  (EditConfig ''running''
                     (delete_tx_payload name center_of_channel_bandwidth
                        absolute_frequency_center channel_bandwidth gain)) w of
             (Inl e, w1) \<Rightarrow>
               (Returned None, print (''Failed to delete TX array carrier: '' @ e) w1)
           | (Inr xml, w1) \<Rightarrow>
               (Returned (Some xml),
                save_to_file xml ''TX Array Carrier Deletion''
                  (print (''TX Array Carrier '' @ quoted name @ '' deleted successfully.'') w1))))"

text \<open>\<^verbatim>\<open>delete_rx_array_carrier\<close> (lines 442 to 480).\<close>

definition delete_rx_array_carrier ::
  "string \<Rightarrow> string \<Rightarrow> string \<Rightarrow> string \<Rightarrow> string \<Rightarrow> string \<Rightarrow> world \<Rightarrow>
   string option outcome \<times> world" where
  "delete_rx_array_carrier name center_of_channel_bandwidth absolute_frequency_center
       channel_bandwidth gain_correction n_ta_offset w =
     (case session w of
        None \<Rightarrow> (Returned None, print no_session_msg w)
      | Some s \<Rightarrow>
          (case call_session s
                  (EditConfig ''running''
                     (delete_rx_payload name center_of_channel_bandwidth
                        absolute_frequency_center channel_bandwidth gain_correction
                        n_ta_offset)) w of
             (Inl e, w1) \<Rightarrow>
               (Returned None, print (''Failed to delete RX array carrier: '' @ e) w1)
           | (Inr xml, w1) \<Rightarrow>
               (Returned (Some xml),
                save_to_file xml ''RX Array Carrier Deletion''
                  (print (''RX Array Carrier '' @ quoted name @ '' deleted successfully.'') w1))))"

text \<open>\<^verbatim>\<open>get_running_config\<close> (lines 482 to 499).\<close>

definition get_running_config :: "world \<Rightarrow> string option outcome \<times> world" where
  "get_running_config w =
     (case session w of
        None \<Rightarrow> (Returned None, print no_session_msg w)
      | Some s \<Rightarrow>
          (case call_session s (GetConfig ''running'') w of
             (Inl e, w1) \<Rightarrow>
               (Returned None, print (''Failed to retrieve running configuration: '' @ e) w1)
           | (Inr xml, w1) \<Rightarrow>
               (Returned (Some xml),
                save_to_file xml ''Running Configuration''
                  (print ''Running configuration retrieved successfully.'' w1))))"

text \<open>
  \<^verbatim>\<open>retrieve_carrier_status\<close> (lines 501 to 543). Both tests of lines 534 and 536 look
  for \<^verbatim>\<open><active>ACTIVE</active>\<close> anywhere in the reply.
\<close>

definition retrieve_carrier_status ::
  "string \<Rightarrow> string \<Rightarrow> world \<Rightarrow> (string option \<times> string option) outcome \<times> world" where
  "retrieve_carrier_status tx_name rx_name w =
     (case session w of
        None \<Rightarrow> (Returned (None, None), print no_session_msg w)
      | Some s \<Rightarrow>
          (case call_session s (Get (Some (FilterText (carrier_status_filter tx_name rx_name)))) w of
             (Inl e, w1) \<Rightarrow>
               (Returned (None, None), print (''Failed to retrieve carrier status: '' @ e) w1)
           | (Inr xml_str, w1) \<Rightarrow>
               (let w2 = save_to_file xml_str ''Carrier Status Retrieval'' w1;
                    tx_active =
                      (if contains (''<name>'' @ tx_name @ ''</name>'') xml_str \<and>
                          contains ''<active>ACTIVE</active>'' xml_str
                       then ''ACTIVE'' else ''INACTIVE'');
                    rx_active =
                      (if contains (''<name>'' @ rx_name @ ''</name>'') xml_str \<and>
                          contains ''<active>ACTIVE</active>'' xml_str
                       then ''ACTIVE'' else ''INACTIVE'')
                in (Returned (Some tx_active, Some rx_active),
                    print (''Current status - TX: '' @ tx_active @ '', RX: '' @ rx_active) w2))))"

text \<open>\<^verbatim>\<open>activate_carriers\<close> (lines 545 to 586).\<close>

definition activate_carriers ::
  "string \<Rightarrow> string \<Rightarrow> world \<Rightarrow> string option outcome \<times> world" where
  "activate_carriers tx_name rx_name w =
     (case session w of
        None \<Rightarrow> (Returned None, print no_session_msg w)
      | Some s \<Rightarrow>
          (case retrieve_carrier_status tx_name rx_name w of
             (Raised e, w1) \<Rightarrow> (Raised e, w1)
           | (Returned (tx_status, rx_status), w1) \<Rightarrow>
               if tx_status = Some ''ACTIVE'' \<and> rx_status = Some ''ACTIVE'' then
                 (Returned None,
                  print (''Both TX ('' @ tx_name @ '') and RX ('' @ rx_name @
                         '') array carriers are already ACTIVE.'') w1)
               else
                 (case call_session s
                         (EditConfig ''running'' (activate_payload tx_name rx_name)) w1 of
                    (Inl e, w2) \<Rightarrow>
                      (Returned None, print (''Failed to activate carriers: '' @ e) w2)
                  | (Inr xml, w2) \<Rightarrow>
                      (Returned (Some xml),
                       save_to_file xml ''Carriers Activation''
                         (print (''TX Array Carrier '' @ quoted tx_name @
                                 '' and RX Array Carrier '' @ quoted rx_name @
                                 '' activated successfully.'') w2)))))"

text \<open>\<^verbatim>\<open>deactivate_carriers\<close> (lines 588 to 629).\<close>

definition deactivate_carriers ::
  "string \<Rightarrow> string \<Rightarrow> world \<Rightarrow> string option outcome \<times> world" where
  "deactivate_carriers tx_name rx_name w =
     (case session w of
        None \<Rightarrow> (Returned None, print no_session_msg w)
      | Some s \<Rightarrow>
          (case retrieve_carrier_status tx_name rx_name w of
             (Raised e, w1) \<Rightarrow> (Raised e, w1)
           | (Returned (tx_status, rx_status), w1) \<Rightarrow>
               if tx_status = Some ''INACTIVE'' \<and> rx_status = Some ''INACTIVE'' then
                 (Returned None,
                  print (''Both TX ('' @ tx_name @ '') and RX ('' @ rx_name @
                         '') array carriers are already INACTIVE.'') w1)
               else
                 (case call_session s
                         (EditConfig ''running'' (deactivate_payload tx_name rx_name)) w1 of
                    (Inl e, w2) \<Rightarrow>
                      (Returned None, print (''Failed to deactivate carriers: '' @ e) w2)
                  | (Inr xml, w2) \<Rightarrow>
                      (Returned (Some xml),
                       save_to_file xml ''Carriers Deactivation''
                         (print (''TX Array Carrier '' @ quoted tx_name @
                                 '' and RX Array Carrier '' @ quoted rx_name @
                                 '' deactivated successfully.'') w2)))))"

text \<open>\<^verbatim>\<open>retrieve_ru_states\<close> (lines 632 to 662).\<close>

definition retrieve_ru_states :: "world \<Rightarrow> string option outcome \<times> world" where
  "retrieve_ru_states w =
     (case session w of
        None \<Rightarrow> (Returned None, print no_session_msg w)
      | Some s \<Rightarrow>
          (case call_session s (Get (Some (FilterText ru_states_filter))) w of
             (Inl e, w1) \<Rightarrow> (Returned None, print (''Failed to retrieve RU states: '' @ e) w1)
           | (Inr xml, w1) \<Rightarrow>
               (Returned (Some xml),
                save_to_file xml ''RU States Response''
                  (print ''RU states retrieved successfully.'' w1))))"

text \<open>\<^verbatim>\<open>get_all_state_data\<close> (lines 664 to 673). No test of the session.\<close>

definition get_all_state_data :: "world \<Rightarrow> unit outcome \<times> world" where
  "get_all_state_data w =
     (case session w of
        None \<Rightarrow>
          (Returned (),
           print (''Error retrieving state data: '' @ str_of_exception (AttributeError ''get'')) w)
      | Some s \<Rightarrow>
          (case call_session s (Get None) w of
             (Inl e, w1) \<Rightarrow> (Returned (), print (''Error retrieving state data: '' @ e) w1)
           | (Inr xml, w1) \<Rightarrow> (Returned (), save_to_file xml ''All RU states'' w1)))"

text \<open>
  \<^verbatim>\<open>close_connection\<close> (lines 676 to 684). The call of \<^verbatim>\<open>close_session\<close> is outside
  every \<^verbatim>\<open>try\<close>, and the session field is left as it is.
\<close>

definition close_connection :: "world \<Rightarrow> unit outcome \<times> world" where
  "close_connection w =
     (case session w of
        None \<Rightarrow> (Returned (), print ''No active session to close.'' w)
      | Some s \<Rightarrow>
          (case call_session s CloseSession w of
             (Inl e, w1) \<Rightarrow> (Raised (LibraryError e), w1)
           | (Inr xml, w1) \<Rightarrow> (Returned (), print ''NETCONF session closed.'' w1)))"

subsection \<open>Calling any method\<close>

text \<open>
  The methods that use the session, as one type, so that a property of all of them is one
  statement. \<open>invoke\<close> calls the method and gives its result as a Python value: the
  reply object or text a method returns is \<open>PyReply\<close> or \<open>PyStr\<close>, a method
  without a \<^verbatim>\<open>return\<close> value gives \<open>PyNone\<close>.
\<close>

datatype pyvalue = PyNone | PyStr string | PyReply string | PyTuple "pyvalue list"

datatype operation =
    SaveCapabilities
  | CheckSupervisionStatus
  | SubscribeToNetconfNotifications
  | ResetSupervisionWatchdog
  | GetAvailableStreams
  | ReceiveNotifications
  | ConfigureCallHome string string string string
  | RetrieveTxArrayCarrierInfo
  | RetrieveRxArrayCarrierInfo
  | ConfigureTxArrayCarrier string string string string string
  | ConfigureRxArrayCarrier string string string string string string
  | DeleteTxArrayCarrier string string string string string
  | DeleteRxArrayCarrier string string string string string string
  | GetRunningConfig
  | RetrieveCarrierStatus string string
  | ActivateCarriers string string
  | DeactivateCarriers string string
  | RetrieveRuStates
  | GetAllStateData
  | CloseConnection

fun py_unit :: "unit outcome \<times> world \<Rightarrow> pyvalue outcome \<times> world" where
  "py_unit (Returned u, w) = (Returned PyNone, w)"
| "py_unit (Raised e, w) = (Raised e, w)"

fun py_str :: "string option outcome \<times> world \<Rightarrow> pyvalue outcome \<times> world" where
  "py_str (Returned None, w) = (Returned PyNone, w)"
| "py_str (Returned (Some x), w) = (Returned (PyStr x), w)"
| "py_str (Raised e, w) = (Raised e, w)"

fun py_reply :: "string option outcome \<times> world \<Rightarrow> pyvalue outcome \<times> world" where
  "py_reply (Returned None, w) = (Returned PyNone, w)"
| "py_reply (Returned (Some x), w) = (Returned (PyReply x), w)"
| "py_reply (Raised e, w) = (Raised e, w)"

fun py_opt :: "string option \<Rightarrow> pyvalue" where
  "py_opt None = PyNone"
| "py_opt (Some x) = PyStr x"

fun py_pair :: "(string option \<times> string option) outcome \<times> world \<Rightarrow> pyvalue outcome \<times> world" where
  "py_pair (Returned (a, b), w) = (Returned (PyTuple [py_opt a, py_opt b]), w)"
| "py_pair (Raised e, w) = (Raised e, w)"

fun invoke :: "operation \<Rightarrow> world \<Rightarrow> pyvalue outcome \<times> world" where
  "invoke SaveCapabilities w = py_unit (save_capabilities w)"
| "invoke CheckSupervisionStatus w = py_str (check_supervision_status w)"
| "invoke SubscribeToNetconfNotifications w = py_reply (subscribe_to_netconf_notifications w)"
| "invoke ResetSupervisionWatchdog w = py_reply (reset_supervision_watchdog w)"
| "invoke GetAvailableStreams w = py_unit (get_available_streams w)"
| "invoke ReceiveNotifications w = py_unit (receive_notifications w)"
| "invoke (ConfigureCallHome a p i s) w = py_reply (configure_call_home a p i s w)"
| "invoke RetrieveTxArrayCarrierInfo w = py_str (retrieve_tx_array_carrier_info w)"
| "invoke RetrieveRxArrayCarrierInfo w = py_str (retrieve_rx_array_carrier_info w)"
| "invoke (ConfigureTxArrayCarrier n c a b g) w = py_reply (configure_tx_array_carrier n c a b g w)"
| "invoke (ConfigureRxArrayCarrier n c a b g t) w =
     py_reply (configure_rx_array_carrier n c a b g t w)"
| "invoke (DeleteTxArrayCarrier n c a b g) w = py_reply (delete_tx_array_carrier n c a b g w)"
| "invoke (DeleteRxArrayCarrier n c a b g t) w = py_reply (delete_rx_array_carrier n c a b g t w)"
| "invoke GetRunningConfig w = py_str (get_running_config w)"
| "invoke (RetrieveCarrierStatus t r) w = py_pair (retrieve_carrier_status t r w)"
| "invoke (ActivateCarriers t r) w = py_reply (activate_carriers t r w)"
| "invoke (DeactivateCarriers t r) w = py_reply (deactivate_carriers t r w)"
| "invoke RetrieveRuStates w = py_str (retrieve_ru_states w)"
| "invoke GetAllStateData w = py_unit (get_all_state_data w)"
| "invoke CloseConnection w = py_unit (close_connection w)"

text \<open>The line a method prints when there is no session.\<close>

fun offline_report :: "operation \<Rightarrow> string" where
  "offline_report SubscribeToNetconfNotifications =
     ''Failed to subscribe: '' @ str_of_exception (AttributeError ''dispatch'')"
| "offline_report GetAvailableStreams =
     ''Error retrieving notification streams: '' @ str_of_exception (AttributeError ''get'')"
| "offline_report GetAllStateData =
     ''Error retrieving state data: '' @ str_of_exception (AttributeError ''get'')"
| "offline_report CloseConnection = ''No active session to close.''"
| "offline_report other = no_session_msg"

text \<open>What a method returns when there is no session.\<close>

fun offline_value :: "operation \<Rightarrow> pyvalue" where
  "offline_value (RetrieveCarrierStatus t r) = PyTuple [PyNone, PyNone]"
| "offline_value other = PyNone"

subsection \<open>Observing the calls of one method\<close>

text \<open>The session calls made between the state \<open>w\<close> and the end of a call started in it.\<close>

definition calls_during :: "world \<Rightarrow> 'a \<times> world \<Rightarrow> request list" where
  "calls_during w r = drop (length (sent w)) (sent (snd r))"

text \<open>The configurations of the edit-config calls among some calls, in order.\<close>

fun edit_config_payloads :: "request list \<Rightarrow> string list" where
  "edit_config_payloads [] = []"
| "edit_config_payloads (EditConfig target config # rs) = config # edit_config_payloads rs"
| "edit_config_payloads (r # rs) = edit_config_payloads rs"

text \<open>No edit-config call is made before a read of the element (a \<^verbatim>\<open>get\<close>).\<close>

fun reads_before_editing :: "request list \<Rightarrow> bool" where
  "reads_before_editing [] = True"
| "reads_before_editing (Get f # rs) = True"
| "reads_before_editing (GetConfig src # rs) = True"
| "reads_before_editing (EditConfig target config # rs) = False"
| "reads_before_editing (r # rs) = reads_before_editing rs"

text \<open>
  The text by which an activation payload sets the state of one carrier: the element of
  the direction (\<open>tx\<close> or \<open>rx\<close>) with the name and the state, laid out as in
  lines 565 to 572.
\<close>

definition carrier_change :: "string \<Rightarrow> string \<Rightarrow> string \<Rightarrow> string" where
  "carrier_change direction name state =
     ''<'' @ direction @ ''-array-carriers>\<newline>'' @
     ''              <name>'' @ name @ ''</name>\<newline>'' @
     ''              <active>'' @ state @ ''</active>\<newline>'' @
     ''            </'' @ direction @ ''-array-carriers>''"

text \<open>
  The path from the RPC element to a field of the watchdog reset: the text of the child
  \<open>field\<close> of the element \<^verbatim>\<open>supervision-watchdog-reset\<close>.
\<close>

definition watchdog_field :: "string \<Rightarrow> element \<Rightarrow> string option" where
  "watchdog_field field e =
     (case find_child ''supervision-watchdog-reset'' e of
        None \<Rightarrow> None
      | Some r \<Rightarrow> findtext field r)"

text \<open>
  The watchdog configuration of the specification, with its two values as the text an RPC
  would carry. The source has no counterpart: \<^verbatim>\<open>reset_supervision_watchdog\<close> takes
  no argument.
\<close>

record spec_watchdog_config =
  configured_interval :: string
  configured_overhead :: string

subsection \<open>Example sessions\<close>

text \<open>A session that answers every call with the same text, and one where every call raises.\<close>

definition replying :: "string \<Rightarrow> session" where
  "replying x =
     \<lparr>server_capabilities = [], rpc_reply = (\<lambda>history r. Inr x),
      notification_queue = (\<lambda>history. Inr [])\<rparr>"

definition failing :: "string \<Rightarrow> session" where
  "failing m =
     \<lparr>server_capabilities = [], rpc_reply = (\<lambda>history r. Inl m),
      notification_queue = (\<lambda>history. Inl m)\<rparr>"

text \<open>
  A session that remembers: every reply is the text of the configurations it has been
  sent by edit-config so far, so that a carrier once created is listed by the next read.
\<close>

definition echoing :: session where
  "echoing =
     \<lparr>server_capabilities = [],
      rpc_reply = (\<lambda>history r. Inr (concat (edit_config_payloads history))),
      notification_queue = (\<lambda>history. Inr [])\<rparr>"

text \<open>
  The client of the script at the end of the source (lines 689 to 695), around a session,
  with a file system where nothing fails.
\<close>

definition example_world :: "session option \<Rightarrow> world" where
  "example_world so =
     \<lparr>host = ''10.1.8.14'', port = 830, username = ''oranbenetel'',
      password = ''aaBB00!$aaBB00!$'', session = so,
      response_file = ''netconf_responses.xml'', capabilities_file = default_capabilities_file,
      sent = [], stdout = [], files = Map.empty, dom_pretty = Inr, capabilities_doc = concat,
      open_error = (\<lambda>path. None), write_error = (\<lambda>path. None)\<rparr>"

text \<open>Replies in which the TX carrier is active and the RX carrier is not, and so on.\<close>

definition tx_only_active_reply :: string where
  "tx_only_active_reply =
     ''<tx-array-carriers><name>TxArrayCarrier0</name><active>ACTIVE</active></tx-array-carriers>'' @
     ''<rx-array-carriers><name>RxArrayCarrier0</name><active>INACTIVE</active></rx-array-carriers>''"

definition both_active_reply :: string where
  "both_active_reply =
     ''<tx-array-carriers><name>TxArrayCarrier0</name><active>ACTIVE</active></tx-array-carriers>'' @
     ''<rx-array-carriers><name>RxArrayCarrier0</name><active>ACTIVE</active></rx-array-carriers>''"

definition both_inactive_reply :: string where
  "both_inactive_reply =
     ''<tx-array-carriers><name>TxArrayCarrier0</name><active>INACTIVE</active></tx-array-carriers>'' @
     ''<rx-array-carriers><name>RxArrayCarrier0</name><active>INACTIVE</active></rx-array-carriers>''"

definition no_carriers_reply :: string where
  "no_carriers_reply = ''<data/>''"

definition supervised_reply :: string where
  "supervised_reply = ''<supervision-status>supervised</supervision-status>''"

definition pending_reply :: string where
  "pending_reply = ''<supervision-status>pending</supervision-status>''"

definition refusing_manager :: manager where
  "refusing_manager h p u pw = Inl ''Could not open socket''"

definition example_config :: spec_watchdog_config where
  "example_config = \<lparr>configured_interval = ''30000'', configured_overhead = ''10''\<rparr>"

section \<open>Properties\<close>

subsection \<open>Basic facts\<close>

lemma contains_iff_sublist: "contains p s \<longleftrightarrow> sublist p s"
  by (induction s) (simp_all add: sublist_Cons_right)

lemma contains_iff: "contains p s \<longleftrightarrow> (\<exists>pre post. s = pre @ p @ post)"
  by (simp add: contains_iff_sublist sublist_def)

lemma print_simps:
  "sent (print l w) = sent w" "session (print l w) = session w"
  "stdout (print l w) = stdout w @ [l]" "files (print l w) = files w"
  "dom_pretty (print l w) = dom_pretty w" "response_file (print l w) = response_file w"
  by (simp_all add: print_def)

lemma save_to_file_simps:
  "sent (save_to_file x m w) = sent w" "session (save_to_file x m w) = session w"
  by (simp_all add: save_to_file_def print_def append_file_def open_append_def
      split: sum.splits option.splits)

subsection \<open>The status query\<close>

lemma retrieve_carrier_status_connected:
  assumes "session w = Some s"
  shows "sent (snd (retrieve_carrier_status tx rx w)) =
           sent w @ [Get (Some (FilterText (carrier_status_filter tx rx)))]"
    and "session (snd (retrieve_carrier_status tx rx w)) = Some s"
  using assms
  by (simp_all add: retrieve_carrier_status_def call_session_def Let_def print_simps
      save_to_file_simps split: sum.splits)

lemma retrieve_carrier_status_returns:
  "\<not> raises (fst (retrieve_carrier_status tx rx w))"
  by (simp add: retrieve_carrier_status_def call_session_def Let_def 
      split: sum.splits option.splits)

lemma retrieve_carrier_status_value:
  assumes "session w = Some s"
    and "rpc_reply s (sent w) (Get (Some (FilterText (carrier_status_filter tx rx)))) = Inr xml"
  shows "fst (retrieve_carrier_status tx rx w) =
    Returned
     (Some (if contains (''<name>'' @ tx @ ''</name>'') xml \<and> contains ''<active>ACTIVE</active>'' xml
            then ''ACTIVE'' else ''INACTIVE''),
      Some (if contains (''<name>'' @ rx @ ''</name>'') xml \<and> contains ''<active>ACTIVE</active>'' xml
            then ''ACTIVE'' else ''INACTIVE''))"
  using assms
  by (simp add: retrieve_carrier_status_def call_session_def Let_def)

lemma activate_calls:
  assumes s: "session w = Some s"
  shows "calls_during w (activate_carriers tx rx w) =
     Get (Some (FilterText (carrier_status_filter tx rx))) #
     (if fst (retrieve_carrier_status tx rx w) = Returned (Some ''ACTIVE'', Some ''ACTIVE'')
      then [] else [EditConfig ''running'' (activate_payload tx rx)])"
proof -
  obtain r w1 where rw: "retrieve_carrier_status tx rx w = (r, w1)"
    by (cases "retrieve_carrier_status tx rx w")
  from retrieve_carrier_status_returns[of tx rx w] rw obtain a b where r: "r = Returned (a, b)"
    by (cases r) auto
  from retrieve_carrier_status_connected(1)[OF s, of tx rx] rw
  have w1: "sent w1 = sent w @ [Get (Some (FilterText (carrier_status_filter tx rx)))]"
    by simp
  show ?thesis
    by (simp add: activate_carriers_def calls_during_def s rw r w1 call_session_def
        print_simps save_to_file_simps split: sum.splits)
qed

lemma deactivate_calls:
  assumes s: "session w = Some s"
  shows "calls_during w (deactivate_carriers tx rx w) =
     Get (Some (FilterText (carrier_status_filter tx rx))) #
     (if fst (retrieve_carrier_status tx rx w) = Returned (Some ''INACTIVE'', Some ''INACTIVE'')
      then [] else [EditConfig ''running'' (deactivate_payload tx rx)])"
proof -
  obtain r w1 where rw: "retrieve_carrier_status tx rx w = (r, w1)"
    by (cases "retrieve_carrier_status tx rx w")
  from retrieve_carrier_status_returns[of tx rx w] rw obtain a b where r: "r = Returned (a, b)"
    by (cases r) auto
  from retrieve_carrier_status_connected(1)[OF s, of tx rx] rw
  have w1: "sent w1 = sent w @ [Get (Some (FilterText (carrier_status_filter tx rx)))]"
    by simp
  show ?thesis
    by (simp add: deactivate_carriers_def calls_during_def s rw r w1 call_session_def
        print_simps save_to_file_simps split: sum.splits)
qed

lemma offline_calls:
  "session w = None \<Longrightarrow> calls_during w (activate_carriers tx rx w) = []"
  "session w = None \<Longrightarrow> calls_during w (deactivate_carriers tx rx w) = []"
  by (simp_all add: activate_carriers_def deactivate_carriers_def calls_during_def print_simps)

lemma contains_skip: "contains p b \<Longrightarrow> contains p (a @ b)"
  by (auto simp: contains_iff) (metis append.assoc)

lemma payload_names:
  "contains (''<name>'' @ tx @ ''</name>'') (activate_payload tx rx)"
  "contains (''<name>'' @ rx @ ''</name>'') (activate_payload tx rx)"
  "contains (''<name>'' @ tx @ ''</name>'') (deactivate_payload tx rx)"
  "contains (''<name>'' @ rx @ ''</name>'') (deactivate_payload tx rx)"
  by (simp_all add: activate_payload_def deactivate_payload_def contains_skip)

lemma payload_changes:
  "contains (carrier_change ''tx'' tx ''ACTIVE'') (activate_payload tx rx)"
  "contains (carrier_change ''rx'' rx ''ACTIVE'') (activate_payload tx rx)"
  "contains (carrier_change ''tx'' tx ''INACTIVE'') (deactivate_payload tx rx)"
  "contains (carrier_change ''rx'' rx ''INACTIVE'') (deactivate_payload tx rx)"
  by (simp_all add: activate_payload_def deactivate_payload_def contains_skip carrier_change_def)

text \<open>
  C1: \<^verbatim>\<open>activate_carriers\<close> and \<^verbatim>\<open>deactivate_carriers\<close> make at most one
  edit-config call, and exactly one when there is a session and the status read does not
  already show the target state on both sides. Its configuration is the combined payload,
  which holds both carrier names, each in its own carrier element with the target state.
  The TX change and the RX change are never two calls.
\<close>

theorem pair_change_is_one_edit_config:
  "edit_config_payloads (calls_during w (activate_carriers tx_name rx_name w)) =
     (if session w \<noteq> None \<and>
         fst (retrieve_carrier_status tx_name rx_name w) \<noteq>
           Returned (Some ''ACTIVE'', Some ''ACTIVE'')
      then [activate_payload tx_name rx_name] else []) \<and>
   edit_config_payloads (calls_during w (deactivate_carriers tx_name rx_name w)) =
     (if session w \<noteq> None \<and>
         fst (retrieve_carrier_status tx_name rx_name w) \<noteq>
           Returned (Some ''INACTIVE'', Some ''INACTIVE'')
      then [deactivate_payload tx_name rx_name] else []) \<and>
   contains (''<name>'' @ tx_name @ ''</name>'') (activate_payload tx_name rx_name) \<and>
   contains (''<name>'' @ rx_name @ ''</name>'') (activate_payload tx_name rx_name) \<and>
   contains (''<name>'' @ tx_name @ ''</name>'') (deactivate_payload tx_name rx_name) \<and>
   contains (''<name>'' @ rx_name @ ''</name>'') (deactivate_payload tx_name rx_name) \<and>
   contains (carrier_change ''tx'' tx_name ''ACTIVE'') (activate_payload tx_name rx_name) \<and>
   contains (carrier_change ''rx'' rx_name ''ACTIVE'') (activate_payload tx_name rx_name) \<and>
   contains (carrier_change ''tx'' tx_name ''INACTIVE'') (deactivate_payload tx_name rx_name) \<and>
   contains (carrier_change ''rx'' rx_name ''INACTIVE'') (deactivate_payload tx_name rx_name)"
proof -
  have a: "edit_config_payloads (calls_during w (activate_carriers tx_name rx_name w)) =
     (if session w \<noteq> None \<and>
         fst (retrieve_carrier_status tx_name rx_name w) \<noteq>
           Returned (Some ''ACTIVE'', Some ''ACTIVE'')
      then [activate_payload tx_name rx_name] else [])"
    by (cases "session w") (simp_all add: offline_calls activate_calls)
  have d: "edit_config_payloads (calls_during w (deactivate_carriers tx_name rx_name w)) =
     (if session w \<noteq> None \<and>
         fst (retrieve_carrier_status tx_name rx_name w) \<noteq>
           Returned (Some ''INACTIVE'', Some ''INACTIVE'')
      then [deactivate_payload tx_name rx_name] else [])"
    by (cases "session w") (simp_all add: offline_calls deactivate_calls)
  show ?thesis
    by (intro conjI a d payload_names payload_changes)
qed

lemma example_status:
  "fst (retrieve_carrier_status ''TxArrayCarrier0'' ''RxArrayCarrier0''
         (example_world (Some (replying both_inactive_reply)))) =
   Returned (Some ''INACTIVE'', Some ''INACTIVE'')"
  "fst (retrieve_carrier_status ''TxArrayCarrier0'' ''RxArrayCarrier0''
         (example_world (Some (replying both_active_reply)))) =
   Returned (Some ''ACTIVE'', Some ''ACTIVE'')"
  "fst (retrieve_carrier_status ''TxArrayCarrier0'' ''RxArrayCarrier0''
         (example_world (Some (replying tx_only_active_reply)))) =
   Returned (Some ''ACTIVE'', Some ''ACTIVE'')"
  by (simp_all add: retrieve_carrier_status_def call_session_def example_world_def replying_def
      Let_def both_inactive_reply_def both_active_reply_def tx_only_active_reply_def)

lemma example_session: "session (example_world so) = so"
  by (simp add: example_world_def)

theorem pair_change_is_one_edit_config_witness:
  "edit_config_payloads
     (calls_during (example_world (Some (replying both_inactive_reply)))
        (activate_carriers ''TxArrayCarrier0'' ''RxArrayCarrier0''
           (example_world (Some (replying both_inactive_reply))))) =
     [activate_payload ''TxArrayCarrier0'' ''RxArrayCarrier0''] \<and>
   edit_config_payloads
     (calls_during (example_world (Some (replying both_active_reply)))
        (deactivate_carriers ''TxArrayCarrier0'' ''RxArrayCarrier0''
           (example_world (Some (replying both_active_reply))))) =
     [deactivate_payload ''TxArrayCarrier0'' ''RxArrayCarrier0'']"
  using pair_change_is_one_edit_config
          [of "example_world (Some (replying both_inactive_reply))"
              "''TxArrayCarrier0''" "''RxArrayCarrier0''"]
        pair_change_is_one_edit_config
          [of "example_world (Some (replying both_active_reply))"
              "''TxArrayCarrier0''" "''RxArrayCarrier0''"]
  by (simp add: example_status example_session)

lemma activate_noop:
  assumes s: "session w = Some s"
    and st: "fst (retrieve_carrier_status tx rx w) = Returned (Some ''ACTIVE'', Some ''ACTIVE'')"
  shows "fst (activate_carriers tx rx w) = Returned None"
    and "stdout (snd (activate_carriers tx rx w)) =
         stdout (snd (retrieve_carrier_status tx rx w)) @
         [''Both TX ('' @ tx @ '') and RX ('' @ rx @ '') array carriers are already ACTIVE.'']"
  using st
  by (cases "retrieve_carrier_status tx rx w";
      simp add: activate_carriers_def s print_simps del: append.simps)+

lemma deactivate_noop:
  assumes s: "session w = Some s"
    and st: "fst (retrieve_carrier_status tx rx w) = Returned (Some ''INACTIVE'', Some ''INACTIVE'')"
  shows "fst (deactivate_carriers tx rx w) = Returned None"
    and "stdout (snd (deactivate_carriers tx rx w)) =
         stdout (snd (retrieve_carrier_status tx rx w)) @
         [''Both TX ('' @ tx @ '') and RX ('' @ rx @ '') array carriers are already INACTIVE.'']"
  using st
  by (cases "retrieve_carrier_status tx rx w";
      simp add: deactivate_carriers_def s print_simps del: append.simps)+

text \<open>
  C3: with a session, \<^verbatim>\<open>activate_carriers\<close> and \<^verbatim>\<open>deactivate_carriers\<close> start
  with the status read. When the read reports the target state on both sides (both
  \<^verbatim>\<open>ACTIVE\<close>, respectively both \<^verbatim>\<open>INACTIVE\<close>), the read is the only call: no
  edit-config is sent, the call returns \<^verbatim>\<open>None\<close> and says that both are already in
  that state.
\<close>

theorem target_state_reached_is_noop:
  assumes "session w = Some s"
  shows "take 1 (calls_during w (activate_carriers tx_name rx_name w)) =
           [Get (Some (FilterText (carrier_status_filter tx_name rx_name)))] \<and>
         take 1 (calls_during w (deactivate_carriers tx_name rx_name w)) =
           [Get (Some (FilterText (carrier_status_filter tx_name rx_name)))] \<and>
         (fst (retrieve_carrier_status tx_name rx_name w) =
            Returned (Some ''ACTIVE'', Some ''ACTIVE'') \<longrightarrow>
          calls_during w (activate_carriers tx_name rx_name w) =
            [Get (Some (FilterText (carrier_status_filter tx_name rx_name)))] \<and>
          edit_config_payloads (calls_during w (activate_carriers tx_name rx_name w)) = [] \<and>
          fst (activate_carriers tx_name rx_name w) = Returned None \<and>
          stdout (snd (activate_carriers tx_name rx_name w)) =
            stdout (snd (retrieve_carrier_status tx_name rx_name w)) @
            [''Both TX ('' @ tx_name @ '') and RX ('' @ rx_name @
             '') array carriers are already ACTIVE.'']) \<and>
         (fst (retrieve_carrier_status tx_name rx_name w) =
            Returned (Some ''INACTIVE'', Some ''INACTIVE'') \<longrightarrow>
          calls_during w (deactivate_carriers tx_name rx_name w) =
            [Get (Some (FilterText (carrier_status_filter tx_name rx_name)))] \<and>
          edit_config_payloads (calls_during w (deactivate_carriers tx_name rx_name w)) = [] \<and>
          fst (deactivate_carriers tx_name rx_name w) = Returned None \<and>
          stdout (snd (deactivate_carriers tx_name rx_name w)) =
            stdout (snd (retrieve_carrier_status tx_name rx_name w)) @
            [''Both TX ('' @ tx_name @ '') and RX ('' @ rx_name @
             '') array carriers are already INACTIVE.''])"
proof (intro conjI impI)
  show "take 1 (calls_during w (activate_carriers tx_name rx_name w)) =
           [Get (Some (FilterText (carrier_status_filter tx_name rx_name)))]"
    by (simp add: activate_calls[OF assms])
  show "take 1 (calls_during w (deactivate_carriers tx_name rx_name w)) =
           [Get (Some (FilterText (carrier_status_filter tx_name rx_name)))]"
    by (simp add: deactivate_calls[OF assms])
next
  assume st: "fst (retrieve_carrier_status tx_name rx_name w) =
            Returned (Some ''ACTIVE'', Some ''ACTIVE'')"
  show "calls_during w (activate_carriers tx_name rx_name w) =
            [Get (Some (FilterText (carrier_status_filter tx_name rx_name)))]"
    by (simp add: activate_calls[OF assms] st)
  then show "edit_config_payloads (calls_during w (activate_carriers tx_name rx_name w)) = []"
    by simp
  show "fst (activate_carriers tx_name rx_name w) = Returned None"
    by (rule activate_noop(1)[OF assms st])
  show "stdout (snd (activate_carriers tx_name rx_name w)) =
            stdout (snd (retrieve_carrier_status tx_name rx_name w)) @
            [''Both TX ('' @ tx_name @ '') and RX ('' @ rx_name @
             '') array carriers are already ACTIVE.'']"
    by (rule activate_noop(2)[OF assms st])
next
  assume st: "fst (retrieve_carrier_status tx_name rx_name w) =
            Returned (Some ''INACTIVE'', Some ''INACTIVE'')"
  show "calls_during w (deactivate_carriers tx_name rx_name w) =
            [Get (Some (FilterText (carrier_status_filter tx_name rx_name)))]"
    by (simp add: deactivate_calls[OF assms] st)
  then show "edit_config_payloads (calls_during w (deactivate_carriers tx_name rx_name w)) = []"
    by simp
  show "fst (deactivate_carriers tx_name rx_name w) = Returned None"
    by (rule deactivate_noop(1)[OF assms st])
  show "stdout (snd (deactivate_carriers tx_name rx_name w)) =
            stdout (snd (retrieve_carrier_status tx_name rx_name w)) @
            [''Both TX ('' @ tx_name @ '') and RX ('' @ rx_name @
             '') array carriers are already INACTIVE.'']"
    by (rule deactivate_noop(2)[OF assms st])
qed

theorem target_state_reached_is_noop_witness:
  "calls_during (example_world (Some (replying both_active_reply)))
     (activate_carriers ''TxArrayCarrier0'' ''RxArrayCarrier0''
        (example_world (Some (replying both_active_reply)))) =
     [Get (Some (FilterText (carrier_status_filter ''TxArrayCarrier0'' ''RxArrayCarrier0'')))] \<and>
   fst (activate_carriers ''TxArrayCarrier0'' ''RxArrayCarrier0''
          (example_world (Some (replying both_active_reply)))) = Returned None \<and>
   calls_during (example_world (Some (replying both_inactive_reply)))
     (deactivate_carriers ''TxArrayCarrier0'' ''RxArrayCarrier0''
        (example_world (Some (replying both_inactive_reply)))) =
     [Get (Some (FilterText (carrier_status_filter ''TxArrayCarrier0'' ''RxArrayCarrier0'')))] \<and>
   fst (deactivate_carriers ''TxArrayCarrier0'' ''RxArrayCarrier0''
          (example_world (Some (replying both_inactive_reply)))) = Returned None"
  using target_state_reached_is_noop
          [of "example_world (Some (replying both_active_reply))" "replying both_active_reply"
              "''TxArrayCarrier0''" "''RxArrayCarrier0''"]
        target_state_reached_is_noop
          [of "example_world (Some (replying both_inactive_reply))"
              "replying both_inactive_reply" "''TxArrayCarrier0''" "''RxArrayCarrier0''"]
  by (simp add: example_status example_session)

text \<open>
  C9: in \<^verbatim>\<open>retrieve_carrier_status\<close> the two reported states depend on the same test.
  When the reply holds the name tag of the TX carrier and that of the RX carrier, both
  states are the same text, and they are both \<^verbatim>\<open>ACTIVE\<close> as soon as
  \<^verbatim>\<open><active>ACTIVE</active>\<close> occurs anywhere in the reply, also when only one of the
  two carriers is active.
\<close>

theorem one_active_carrier_reports_both_active:
  assumes "session w = Some s"
    and "rpc_reply s (sent w) (Get (Some (FilterText (carrier_status_filter tx_name rx_name)))) =
           Inr xml_str"
    and "contains (''<name>'' @ tx_name @ ''</name>'') xml_str"
    and "contains (''<name>'' @ rx_name @ ''</name>'') xml_str"
  shows "(contains ''<active>ACTIVE</active>'' xml_str \<longrightarrow>
          fst (retrieve_carrier_status tx_name rx_name w) =
            Returned (Some ''ACTIVE'', Some ''ACTIVE'')) \<and>
         (\<not> contains ''<active>ACTIVE</active>'' xml_str \<longrightarrow>
          fst (retrieve_carrier_status tx_name rx_name w) =
            Returned (Some ''INACTIVE'', Some ''INACTIVE''))"
  using assms(3,4) 
  by (simp add: retrieve_carrier_status_value[OF assms(1,2)] del: append.simps)

theorem one_active_carrier_reports_both_active_witness:
  "contains (''<name>RxArrayCarrier0</name><active>INACTIVE</active>'') tx_only_active_reply \<and>
   fst (retrieve_carrier_status ''TxArrayCarrier0'' ''RxArrayCarrier0''
          (example_world (Some (replying tx_only_active_reply)))) =
     Returned (Some ''ACTIVE'', Some ''ACTIVE'')"
  using one_active_carrier_reports_both_active
          [of "example_world (Some (replying tx_only_active_reply))"
              "replying tx_only_active_reply" "''TxArrayCarrier0''" "''RxArrayCarrier0''"
              tx_only_active_reply]
  by (simp add: example_session replying_def tx_only_active_reply_def)

subsection \<open>Creating a carrier\<close>

lemma retrieve_tx_connected:
  assumes "session w = Some s"
  shows "sent (snd (retrieve_tx_array_carrier_info w)) =
           sent w @ [Get (Some (FilterText tx_array_carriers_filter))]"
    and "fst (retrieve_tx_array_carrier_info w) =
           (case rpc_reply s (sent w) (Get (Some (FilterText tx_array_carriers_filter))) of
              Inl e \<Rightarrow> Returned None | Inr x \<Rightarrow> Returned (Some x))"
  using assms
  by (simp_all add: retrieve_tx_array_carrier_info_def call_session_def print_simps
      save_to_file_simps split: sum.splits)

lemma retrieve_rx_connected:
  assumes "session w = Some s"
  shows "sent (snd (retrieve_rx_array_carrier_info w)) =
           sent w @ [Get (Some (FilterText rx_array_carriers_filter))]"
    and "fst (retrieve_rx_array_carrier_info w) =
           (case rpc_reply s (sent w) (Get (Some (FilterText rx_array_carriers_filter))) of
              Inl e \<Rightarrow> Returned None | Inr x \<Rightarrow> Returned (Some x))"
  using assms
  by (simp_all add: retrieve_rx_array_carrier_info_def call_session_def print_simps
      save_to_file_simps split: sum.splits)

lemma configure_tx_read:
  assumes s: "session w = Some s"
    and r: "rpc_reply s (sent w) (Get (Some (FilterText tx_array_carriers_filter))) = Inr tx_info"
  shows "calls_during w (configure_tx_array_carrier name c a b g w) =
           Get (Some (FilterText tx_array_carriers_filter)) #
           (if contains (''<name>'' @ name @ ''</name>'') tx_info then []
            else [EditConfig ''running'' (configure_tx_payload name c a b g)])"
    and "contains (''<name>'' @ name @ ''</name>'') tx_info \<Longrightarrow>
         fst (configure_tx_array_carrier name c a b g w) = Returned None"
    and "contains (''<name>'' @ name @ ''</name>'') tx_info \<Longrightarrow>
         stdout (snd (configure_tx_array_carrier name c a b g w)) =
           stdout (snd (retrieve_tx_array_carrier_info w)) @
           [''TX Array Carrier '' @ quoted name @ '' already exists, skipping configuration.'']"
proof -
  obtain v w1 where rw: "retrieve_tx_array_carrier_info w = (v, w1)"
    by (cases "retrieve_tx_array_carrier_info w")
  from retrieve_tx_connected[OF s] rw r
  have w1: "sent w1 = sent w @ [Get (Some (FilterText tx_array_carriers_filter))]"
    and v: "v = Returned (Some tx_info)"
    by simp_all
  show "calls_during w (configure_tx_array_carrier name c a b g w) =
           Get (Some (FilterText tx_array_carriers_filter)) #
           (if contains (''<name>'' @ name @ ''</name>'') tx_info then []
            else [EditConfig ''running'' (configure_tx_payload name c a b g)])"
    by (simp add: configure_tx_array_carrier_def calls_during_def s rw v w1 call_session_def
        print_simps save_to_file_simps split: sum.splits del: append.simps)
  assume "contains (''<name>'' @ name @ ''</name>'') tx_info"
  then show "fst (configure_tx_array_carrier name c a b g w) = Returned None"
    and "stdout (snd (configure_tx_array_carrier name c a b g w)) =
           stdout (snd (retrieve_tx_array_carrier_info w)) @
           [''TX Array Carrier '' @ quoted name @ '' already exists, skipping configuration.'']"
    by (simp_all add: configure_tx_array_carrier_def s rw v print_simps del: append.simps)
qed

lemma configure_rx_read:
  assumes s: "session w = Some s"
    and r: "rpc_reply s (sent w) (Get (Some (FilterText rx_array_carriers_filter))) = Inr rx_info"
  shows "calls_during w (configure_rx_array_carrier name c a b g t w) =
           Get (Some (FilterText rx_array_carriers_filter)) #
           (if contains (''<name>'' @ name @ ''</name>'') rx_info then []
            else [EditConfig ''running'' (configure_rx_payload name c a b g t)])"
    and "contains (''<name>'' @ name @ ''</name>'') rx_info \<Longrightarrow>
         fst (configure_rx_array_carrier name c a b g t w) = Returned None"
    and "contains (''<name>'' @ name @ ''</name>'') rx_info \<Longrightarrow>
         stdout (snd (configure_rx_array_carrier name c a b g t w)) =
           stdout (snd (retrieve_rx_array_carrier_info w)) @
           [''RX Array Carrier '' @ quoted name @ '' already exists, skipping configuration.'']"
proof -
  obtain v w1 where rw: "retrieve_rx_array_carrier_info w = (v, w1)"
    by (cases "retrieve_rx_array_carrier_info w")
  from retrieve_rx_connected[OF s] rw r
  have w1: "sent w1 = sent w @ [Get (Some (FilterText rx_array_carriers_filter))]"
    and v: "v = Returned (Some rx_info)"
    by simp_all
  show "calls_during w (configure_rx_array_carrier name c a b g t w) =
           Get (Some (FilterText rx_array_carriers_filter)) #
           (if contains (''<name>'' @ name @ ''</name>'') rx_info then []
            else [EditConfig ''running'' (configure_rx_payload name c a b g t)])"
    by (simp add: configure_rx_array_carrier_def calls_during_def s rw v w1 call_session_def
        print_simps save_to_file_simps split: sum.splits del: append.simps)
  assume "contains (''<name>'' @ name @ ''</name>'') rx_info"
  then show "fst (configure_rx_array_carrier name c a b g t w) = Returned None"
    and "stdout (snd (configure_rx_array_carrier name c a b g t w)) =
           stdout (snd (retrieve_rx_array_carrier_info w)) @
           [''RX Array Carrier '' @ quoted name @ '' already exists, skipping configuration.'']"
    by (simp_all add: configure_rx_array_carrier_def s rw v print_simps del: append.simps)
qed

lemma configure_tx_read_fails:
  assumes s: "session w = Some s"
    and r: "rpc_reply s (sent w) (Get (Some (FilterText tx_array_carriers_filter))) = Inl e"
  shows "fst (configure_tx_array_carrier name c a b g w) = Raised TypeError"
    and "calls_during w (configure_tx_array_carrier name c a b g w) =
           [Get (Some (FilterText tx_array_carriers_filter))]"
proof -
  obtain v w1 where rw: "retrieve_tx_array_carrier_info w = (v, w1)"
    by (cases "retrieve_tx_array_carrier_info w")
  from retrieve_tx_connected[OF s] rw r
  have w1: "sent w1 = sent w @ [Get (Some (FilterText tx_array_carriers_filter))]"
    and v: "v = Returned None"
    by simp_all
  show "fst (configure_tx_array_carrier name c a b g w) = Raised TypeError"
    and "calls_during w (configure_tx_array_carrier name c a b g w) =
           [Get (Some (FilterText tx_array_carriers_filter))]"
    by (simp_all add: configure_tx_array_carrier_def calls_during_def s rw v w1)
qed

lemma configure_rx_read_fails:
  assumes s: "session w = Some s"
    and r: "rpc_reply s (sent w) (Get (Some (FilterText rx_array_carriers_filter))) = Inl e"
  shows "fst (configure_rx_array_carrier name c a b g t w) = Raised TypeError"
    and "calls_during w (configure_rx_array_carrier name c a b g t w) =
           [Get (Some (FilterText rx_array_carriers_filter))]"
proof -
  obtain v w1 where rw: "retrieve_rx_array_carrier_info w = (v, w1)"
    by (cases "retrieve_rx_array_carrier_info w")
  from retrieve_rx_connected[OF s] rw r
  have w1: "sent w1 = sent w @ [Get (Some (FilterText rx_array_carriers_filter))]"
    and v: "v = Returned None"
    by simp_all
  show "fst (configure_rx_array_carrier name c a b g t w) = Raised TypeError"
    and "calls_during w (configure_rx_array_carrier name c a b g t w) =
           [Get (Some (FilterText rx_array_carriers_filter))]"
    by (simp_all add: configure_rx_array_carrier_def calls_during_def s rw v w1)
qed

lemma configure_offline_calls:
  "session w = None \<Longrightarrow> calls_during w (configure_tx_array_carrier name c a b g w) = []"
  "session w = None \<Longrightarrow> calls_during w (configure_rx_array_carrier name c a b g t w) = []"
  by (simp_all add: configure_tx_array_carrier_def configure_rx_array_carrier_def
      calls_during_def print_simps)

lemma configure_tx_edits_only_if_absent:
  assumes "edit_config_payloads (calls_during w (configure_tx_array_carrier name c a b g w)) \<noteq> []"
  shows "\<exists>s' x. session w = Some s' \<and>
           rpc_reply s' (sent w) (Get (Some (FilterText tx_array_carriers_filter))) = Inr x \<and>
           \<not> contains (''<name>'' @ name @ ''</name>'') x"
proof (cases "session w")
  case None
  with assms show ?thesis
    by (simp add: configure_offline_calls)
next
  case (Some s)
  show ?thesis
  proof (cases "rpc_reply s (sent w) (Get (Some (FilterText tx_array_carriers_filter)))")
    case (Inl e)
    with assms show ?thesis
      by (simp add: configure_tx_read_fails(2)[OF Some Inl])
  next
    case (Inr x)
    from assms have "\<not> contains (''<name>'' @ name @ ''</name>'') x"
      unfolding configure_tx_read(1)[OF Some Inr]
      by (auto split: if_splits)
    with Some Inr show ?thesis
      by blast
  qed
qed

lemma configure_rx_edits_only_if_absent:
  assumes "edit_config_payloads (calls_during w (configure_rx_array_carrier name c a b g t w)) \<noteq> []"
  shows "\<exists>s' x. session w = Some s' \<and>
           rpc_reply s' (sent w) (Get (Some (FilterText rx_array_carriers_filter))) = Inr x \<and>
           \<not> contains (''<name>'' @ name @ ''</name>'') x"
proof (cases "session w")
  case None
  with assms show ?thesis
    by (simp add: configure_offline_calls)
next
  case (Some s)
  show ?thesis
  proof (cases "rpc_reply s (sent w) (Get (Some (FilterText rx_array_carriers_filter)))")
    case (Inl e)
    with assms show ?thesis
      by (simp add: configure_rx_read_fails(2)[OF Some Inl])
  next
    case (Inr x)
    from assms have "\<not> contains (''<name>'' @ name @ ''</name>'') x"
      unfolding configure_rx_read(1)[OF Some Inr]
      by (auto split: if_splits)
    with Some Inr show ?thesis
      by blast
  qed
qed

lemma carriers_filter_direction:
  "contains ''<tx-array-carriers/>'' tx_array_carriers_filter"
  "contains ''<rx-array-carriers/>'' rx_array_carriers_filter"
  by (simp_all add: tx_array_carriers_filter_def rx_array_carriers_filter_def)

text \<open>
  C2: \<^verbatim>\<open>configure_tx_array_carrier\<close> and \<^verbatim>\<open>configure_rx_array_carrier\<close>
  create a carrier only if it is not there yet. With a session whose read of the carriers
  succeeds, the read of the carriers of the same direction is the first call and the name
  tag is looked for in its reply. When the tag is there, the read is the only call: the
  method says that the carrier already exists and returns \<^verbatim>\<open>None\<close>. In any state,
  an edit-config is sent only after a read whose reply does not hold the name tag.
\<close>

theorem configure_skips_existing_carrier:
  "(session w = Some s \<and>
    rpc_reply s (sent w) (Get (Some (FilterText tx_array_carriers_filter))) = Inr tx_info \<longrightarrow>
        calls_during w (configure_tx_array_carrier name c a b gain w) =
          Get (Some (FilterText tx_array_carriers_filter)) #
          (if contains (''<name>'' @ name @ ''</name>'') tx_info then []
           else [EditConfig ''running'' (configure_tx_payload name c a b gain)]) \<and>
        (contains (''<name>'' @ name @ ''</name>'') tx_info \<longrightarrow>
           fst (configure_tx_array_carrier name c a b gain w) = Returned None \<and>
           stdout (snd (configure_tx_array_carrier name c a b gain w)) =
             stdout (snd (retrieve_tx_array_carrier_info w)) @
             [''TX Array Carrier '' @ quoted name @
              '' already exists, skipping configuration.''])) \<and>
   (session w = Some s \<and>
    rpc_reply s (sent w) (Get (Some (FilterText rx_array_carriers_filter))) = Inr rx_info \<longrightarrow>
        calls_during w (configure_rx_array_carrier name c a b gain_correction n_ta_offset w) =
          Get (Some (FilterText rx_array_carriers_filter)) #
          (if contains (''<name>'' @ name @ ''</name>'') rx_info then []
           else [EditConfig ''running''
                   (configure_rx_payload name c a b gain_correction n_ta_offset)]) \<and>
        (contains (''<name>'' @ name @ ''</name>'') rx_info \<longrightarrow>
           fst (configure_rx_array_carrier name c a b gain_correction n_ta_offset w) =
             Returned None \<and>
           stdout (snd (configure_rx_array_carrier name c a b gain_correction n_ta_offset w)) =
             stdout (snd (retrieve_rx_array_carrier_info w)) @
             [''RX Array Carrier '' @ quoted name @
              '' already exists, skipping configuration.''])) \<and>
   (edit_config_payloads (calls_during w (configure_tx_array_carrier name c a b gain w)) \<noteq> [] \<longrightarrow>
      (\<exists>s' x. session w = Some s' \<and>
         rpc_reply s' (sent w) (Get (Some (FilterText tx_array_carriers_filter))) = Inr x \<and>
         \<not> contains (''<name>'' @ name @ ''</name>'') x)) \<and>
   (edit_config_payloads
      (calls_during w (configure_rx_array_carrier name c a b gain_correction n_ta_offset w)) \<noteq>
      [] \<longrightarrow>
      (\<exists>s' x. session w = Some s' \<and>
         rpc_reply s' (sent w) (Get (Some (FilterText rx_array_carriers_filter))) = Inr x \<and>
         \<not> contains (''<name>'' @ name @ ''</name>'') x)) \<and>
   contains ''<tx-array-carriers/>'' tx_array_carriers_filter \<and>
   contains ''<rx-array-carriers/>'' rx_array_carriers_filter"
proof (intro conjI impI carriers_filter_direction)
  assume "edit_config_payloads (calls_during w (configure_tx_array_carrier name c a b gain w)) \<noteq> []"
  then show "\<exists>s' x. session w = Some s' \<and>
         rpc_reply s' (sent w) (Get (Some (FilterText tx_array_carriers_filter))) = Inr x \<and>
         \<not> contains (''<name>'' @ name @ ''</name>'') x"
    by (rule configure_tx_edits_only_if_absent)
next
  assume "edit_config_payloads
      (calls_during w (configure_rx_array_carrier name c a b gain_correction n_ta_offset w)) \<noteq>
      []"
  then show "\<exists>s' x. session w = Some s' \<and>
         rpc_reply s' (sent w) (Get (Some (FilterText rx_array_carriers_filter))) = Inr x \<and>
         \<not> contains (''<name>'' @ name @ ''</name>'') x"
    by (rule configure_rx_edits_only_if_absent)
qed (erule conjE, rule configure_tx_read configure_rx_read; assumption)+

lemma configure_tx_session:
  "session w = Some s \<Longrightarrow> session (snd (configure_tx_array_carrier name c a b g w)) = Some s"
  by (simp add: configure_tx_array_carrier_def retrieve_tx_array_carrier_info_def
      call_session_def print_simps save_to_file_simps
      split: sum.splits option.splits outcome.splits prod.splits)

lemma create_payload_names:
  "contains (''<name>'' @ name @ ''</name>'') (configure_tx_payload name c a b g)"
  "contains (''<name>'' @ name @ ''</name>'') (configure_rx_payload name c a b g t)"
  by (simp_all add: configure_tx_payload_def configure_rx_payload_def contains_skip)

lemma echoing_simps:
  "rpc_reply echoing h r = Inr (concat (edit_config_payloads h))"
  by (simp add: echoing_def)

lemma example_sent: "sent (example_world so) = []"
  by (simp add: example_world_def)

theorem configure_skips_existing_carrier_witness:
  "calls_during (example_world (Some echoing))
     (configure_tx_array_carrier ''TxArrayCarrier0'' ''4150000000'' ''653616'' ''100000000''
        ''0.0'' (example_world (Some echoing))) =
     [Get (Some (FilterText tx_array_carriers_filter)),
      EditConfig ''running''
        (configure_tx_payload ''TxArrayCarrier0'' ''4150000000'' ''653616'' ''100000000''
           ''0.0'')] \<and>
   calls_during
     (snd (configure_tx_array_carrier ''TxArrayCarrier0'' ''4150000000'' ''653616''
             ''100000000'' ''0.0'' (example_world (Some echoing))))
     (configure_tx_array_carrier ''TxArrayCarrier0'' ''4150000000'' ''653616'' ''100000000''
        ''0.0''
        (snd (configure_tx_array_carrier ''TxArrayCarrier0'' ''4150000000'' ''653616''
                ''100000000'' ''0.0'' (example_world (Some echoing))))) =
     [Get (Some (FilterText tx_array_carriers_filter))]"
proof -
  let ?w0 = "example_world (Some echoing)"
  let ?cfg = "configure_tx_array_carrier ''TxArrayCarrier0'' ''4150000000'' ''653616''
                ''100000000'' ''0.0''"
  let ?p = "configure_tx_payload ''TxArrayCarrier0'' ''4150000000'' ''653616'' ''100000000''
              ''0.0''"
  have s0: "session ?w0 = Some echoing"
    by (rule example_session)
  have first: "calls_during ?w0 (?cfg ?w0) =
      [Get (Some (FilterText tx_array_carriers_filter)), EditConfig ''running'' ?p]"
    using configure_skips_existing_carrier
            [of ?w0 echoing "[]" "''TxArrayCarrier0''" "''4150000000''" "''653616''"
               "''100000000''" "''0.0''"]
    by (simp add: s0 echoing_simps example_sent)
  have s1: "session (snd (?cfg ?w0)) = Some echoing"
    by (rule configure_tx_session[OF s0])
  have sent1: "sent (snd (?cfg ?w0)) =
      [Get (Some (FilterText tx_array_carriers_filter)), EditConfig ''running'' ?p]"
    using first by (simp add: calls_during_def example_sent)
  have "contains (''<name>'' @ ''TxArrayCarrier0'' @ ''</name>'') ?p"
    by (rule create_payload_names)
  then have second: "calls_during (snd (?cfg ?w0)) (?cfg (snd (?cfg ?w0))) =
      [Get (Some (FilterText tx_array_carriers_filter))]"
    using configure_skips_existing_carrier
            [of "snd (?cfg ?w0)" echoing ?p "''TxArrayCarrier0''" "''4150000000''" "''653616''"
               "''100000000''" "''0.0''"]
    by (simp add: s1 echoing_simps sent1 del: append.simps)
  from first second show ?thesis
    by (rule conjI)
qed

text \<open>
  C10: with a session whose read of the carriers raises, the read returns \<^verbatim>\<open>None\<close>
  and the membership test of \<^verbatim>\<open>configure_tx_array_carrier\<close> and
  \<^verbatim>\<open>configure_rx_array_carrier\<close> on it raises a \<^verbatim>\<open>TypeError\<close> that leaves the
  method: the outcome is an exception, not a returned value, after the read as the only
  call.
\<close>

theorem failed_presence_read_raises_type_error:
  assumes "session w = Some s"
  shows
    "(rpc_reply s (sent w) (Get (Some (FilterText tx_array_carriers_filter))) = Inl e \<longrightarrow>
        fst (retrieve_tx_array_carrier_info w) = Returned None \<and>
        fst (configure_tx_array_carrier name c a b gain w) = Raised TypeError \<and>
        raises (fst (configure_tx_array_carrier name c a b gain w)) \<and>
        calls_during w (configure_tx_array_carrier name c a b gain w) =
          [Get (Some (FilterText tx_array_carriers_filter))]) \<and>
     (rpc_reply s (sent w) (Get (Some (FilterText rx_array_carriers_filter))) = Inl e \<longrightarrow>
        fst (retrieve_rx_array_carrier_info w) = Returned None \<and>
        fst (configure_rx_array_carrier name c a b gain_correction n_ta_offset w) =
          Raised TypeError \<and>
        raises (fst (configure_rx_array_carrier name c a b gain_correction n_ta_offset w)) \<and>
        calls_during w (configure_rx_array_carrier name c a b gain_correction n_ta_offset w) =
          [Get (Some (FilterText rx_array_carriers_filter))])"
  by (simp add: retrieve_tx_connected(2)[OF assms] retrieve_rx_connected(2)[OF assms]
      configure_tx_read_fails[OF assms] configure_rx_read_fails[OF assms])

lemma failing_simps: "rpc_reply (failing m) h r = Inl m"
  by (simp add: failing_def)

theorem failed_presence_read_raises_type_error_witness:
  "fst (retrieve_tx_array_carrier_info (example_world (Some (failing ''timed out'')))) =
     Returned None \<and>
   fst (configure_tx_array_carrier ''TxArrayCarrier0'' ''4150000000'' ''653616'' ''100000000''
          ''0.0'' (example_world (Some (failing ''timed out'')))) = Raised TypeError \<and>
   fst (configure_rx_array_carrier ''RxArrayCarrier0'' ''4150000000'' ''653616'' ''100000000''
          ''0.0'' ''25600'' (example_world (Some (failing ''timed out'')))) = Raised TypeError"
  using failed_presence_read_raises_type_error
          [of "example_world (Some (failing ''timed out''))" "failing ''timed out''"
              "''timed out''" "''TxArrayCarrier0''" "''4150000000''" "''653616''"
              "''100000000''" "''0.0''" "''0.0''" "''25600''"]
        failed_presence_read_raises_type_error
          [of "example_world (Some (failing ''timed out''))" "failing ''timed out''"
              "''timed out''" "''RxArrayCarrier0''" "''4150000000''" "''653616''"
              "''100000000''" "''0.0''" "''0.0''" "''25600''"]
  by (simp add: example_session failing_simps)

subsection \<open>The supervision status\<close>

lemma check_supervision_status_value:
  assumes "session w = Some s"
    and "rpc_reply s (sent w) (Get (Some (FilterText supervision_status_filter))) = Inr xml_str"
  shows "fst (check_supervision_status w) =
     Returned (Some
       (if contains ''<supervision-status>unsupervised</supervision-status>'' xml_str
        then ''unsupervised''
        else if contains ''<supervision-status>supervised</supervision-status>'' xml_str
        then ''supervised'' else ''unsupervised''))"
  using assms
  by (simp add: check_supervision_status_def call_session_def Let_def)

lemma check_supervision_status_supervised:
  assumes "fst (check_supervision_status w) = Returned (Some ''supervised'')"
  shows "\<exists>s xml_str. session w = Some s \<and>
      rpc_reply s (sent w) (Get (Some (FilterText supervision_status_filter))) = Inr xml_str \<and>
      contains ''<supervision-status>supervised</supervision-status>'' xml_str \<and>
      \<not> contains ''<supervision-status>unsupervised</supervision-status>'' xml_str"
proof (cases "session w")
  case None
  with assms show ?thesis
    by (simp add: check_supervision_status_def)
next
  case (Some s)
  show ?thesis
  proof (cases "rpc_reply s (sent w) (Get (Some (FilterText supervision_status_filter)))")
    case (Inl e)
    with assms Some show ?thesis
      by (simp add: check_supervision_status_def call_session_def)
  next
    case (Inr xml_str)
    from assms show ?thesis
      unfolding check_supervision_status_value[OF Some Inr]
      by (intro exI[of _ s] exI[of _ xml_str]) (simp add: Some Inr split: if_splits)
  qed
qed

text \<open>
  C6: when the read of \<^verbatim>\<open>check_supervision_status\<close> succeeds, the result is one of
  the two literal values. It is \<^verbatim>\<open>supervised\<close> exactly when the reply holds the
  supervised element and not the unsupervised one; a reply with the unsupervised element,
  or with neither of the two, gives \<^verbatim>\<open>unsupervised\<close>. In any state, the result
  \<^verbatim>\<open>supervised\<close> comes only from such a reply.
\<close>

theorem supervision_status_falls_back_to_unsupervised:
  "(session w = Some s \<and>
    rpc_reply s (sent w) (Get (Some (FilterText supervision_status_filter))) = Inr xml_str \<longrightarrow>
      (fst (check_supervision_status w) = Returned (Some ''unsupervised'') \<or>
       fst (check_supervision_status w) = Returned (Some ''supervised'')) \<and>
      (fst (check_supervision_status w) = Returned (Some ''supervised'') \<longleftrightarrow>
         contains ''<supervision-status>supervised</supervision-status>'' xml_str \<and>
         \<not> contains ''<supervision-status>unsupervised</supervision-status>'' xml_str) \<and>
      (contains ''<supervision-status>unsupervised</supervision-status>'' xml_str \<longrightarrow>
         fst (check_supervision_status w) = Returned (Some ''unsupervised'')) \<and>
      (\<not> contains ''<supervision-status>unsupervised</supervision-status>'' xml_str \<and>
       \<not> contains ''<supervision-status>supervised</supervision-status>'' xml_str \<longrightarrow>
         fst (check_supervision_status w) = Returned (Some ''unsupervised''))) \<and>
   (fst (check_supervision_status w) = Returned (Some ''supervised'') \<longrightarrow>
      (\<exists>s' x. session w = Some s' \<and>
         rpc_reply s' (sent w) (Get (Some (FilterText supervision_status_filter))) = Inr x \<and>
         contains ''<supervision-status>supervised</supervision-status>'' x \<and>
         \<not> contains ''<supervision-status>unsupervised</supervision-status>'' x))"
proof (intro conjI impI)
  assume "fst (check_supervision_status w) = Returned (Some ''supervised'')"
  then show "\<exists>s' x. session w = Some s' \<and>
         rpc_reply s' (sent w) (Get (Some (FilterText supervision_status_filter))) = Inr x \<and>
         contains ''<supervision-status>supervised</supervision-status>'' x \<and>
         \<not> contains ''<supervision-status>unsupervised</supervision-status>'' x"
    by (rule check_supervision_status_supervised)
qed (simp_all add: check_supervision_status_value)

lemma replying_simps: "rpc_reply (replying x) h r = Inr x"
  by (simp add: replying_def)

theorem supervision_status_falls_back_to_unsupervised_witness:
  "fst (check_supervision_status (example_world (Some (replying supervised_reply)))) =
     Returned (Some ''supervised'') \<and>
   fst (check_supervision_status (example_world (Some (replying pending_reply)))) =
     Returned (Some ''unsupervised'') \<and>
   fst (check_supervision_status (example_world (Some (replying no_carriers_reply)))) =
     Returned (Some ''unsupervised'')"
  using supervision_status_falls_back_to_unsupervised
          [of "example_world (Some (replying supervised_reply))" "replying supervised_reply"
              supervised_reply]
        supervision_status_falls_back_to_unsupervised
          [of "example_world (Some (replying pending_reply))" "replying pending_reply"
              pending_reply]
        supervision_status_falls_back_to_unsupervised
          [of "example_world (Some (replying no_carriers_reply))" "replying no_carriers_reply"
              no_carriers_reply]
  by (simp add: example_session replying_simps supervised_reply_def pending_reply_def
      no_carriers_reply_def)

subsection \<open>Connecting\<close>

text \<open>
  C8, the claim as stated fails: \<^verbatim>\<open>manager.connect\<close> refuses, and \<^verbatim>\<open>connect\<close>
  returns normally; no exception reaches the caller.
\<close>

theorem failed_connect_raises_nothing:
  "refusing_manager (host (example_world None)) (port (example_world None))
     (username (example_world None)) (password (example_world None)) =
     Inl ''Could not open socket'' \<and>
   fst (connect refusing_manager (example_world None)) = Returned () \<and>
   \<not> raises (fst (connect refusing_manager (example_world None)))"
  by (simp add: connect_def refusing_manager_def)

text \<open>
  C8, amended: when \<^verbatim>\<open>manager.connect\<close> raises, \<^verbatim>\<open>connect\<close> leaves the session
  field \<^verbatim>\<open>None\<close> (also when it held a session before), prints the failure with the
  text of the exception and returns normally. The exception is caught inside
  \<^verbatim>\<open>connect\<close>: the caller learns of the failure from the session field only.
\<close>

theorem failed_connect_leaves_no_session:
  assumes "mgr (host w) (port w) (username w) (password w) = Inl e"
  shows "session (snd (connect mgr w)) = None \<and>
         fst (connect mgr w) = Returned () \<and>
         \<not> raises (fst (connect mgr w)) \<and>
         stdout (snd (connect mgr w)) = stdout w @ [''Failed to connect to RU: '' @ e] \<and>
         sent (snd (connect mgr w)) = sent w"
  using assms by (simp add: connect_def print_simps print_def)

theorem failed_connect_leaves_no_session_witness:
  "session (example_world (Some (replying no_carriers_reply))) =
     Some (replying no_carriers_reply) \<and>
   session (snd (connect refusing_manager (example_world (Some (replying no_carriers_reply))))) =
     None \<and>
   stdout (snd (connect refusing_manager (example_world (Some (replying no_carriers_reply))))) =
     [''Failed to connect to RU: Could not open socket'']"
  using failed_connect_leaves_no_session
          [of refusing_manager "example_world (Some (replying no_carriers_reply))"
              "''Could not open socket''"]
  by (simp add: refusing_manager_def example_session example_world_def)

subsection \<open>The watchdog reset\<close>

lemma watchdog_reset_rpc_text:
  \<open>watchdog_reset_rpc =
     ''<rpc xmlns="urn:ietf:params:xml:ns:netconf:base:1.0" message-id="1">'' @
     ''<supervision-watchdog-reset xmlns="urn:o-ran:supervision:1.0">'' @
     ''<supervision-notification-interval>60000</supervision-notification-interval>'' @
     ''<guard-timer-overhead>5</guard-timer-overhead>'' @
     ''</supervision-watchdog-reset></rpc>''\<close>
  by (simp add: watchdog_reset_rpc_def rpc_def supervision_reset_def notification_interval_def
      guard_timer_overhead_def)

lemma watchdog_fields:
  "watchdog_field ''supervision-notification-interval'' rpc = Some ''60000''"
  "watchdog_field ''guard-timer-overhead'' rpc = Some ''5''"
  by (simp_all add: watchdog_field_def rpc_def supervision_reset_def notification_interval_def
      guard_timer_overhead_def)

lemma reset_supervision_watchdog_calls:
  "session w = Some s \<Longrightarrow>
   calls_during w (reset_supervision_watchdog w) = [Dispatch watchdog_reset_rpc]"
  by (simp add: reset_supervision_watchdog_def calls_during_def call_session_def print_simps
      save_to_file_simps split: sum.splits)

text \<open>
  C7, the claim as stated fails: for the configuration with interval 30000 and overhead
  10, the RPC that \<^verbatim>\<open>reset_supervision_watchdog\<close> sends carries neither value.
\<close>

theorem watchdog_reset_ignores_configuration:
  "calls_during (example_world (Some (replying no_carriers_reply)))
     (reset_supervision_watchdog (example_world (Some (replying no_carriers_reply)))) =
     [Dispatch (tostring rpc)] \<and>
   watchdog_field ''supervision-notification-interval'' rpc \<noteq>
     Some (configured_interval example_config) \<and>
   watchdog_field ''guard-timer-overhead'' rpc \<noteq> Some (configured_overhead example_config)"
  by (simp add: reset_supervision_watchdog_calls[OF example_session] watchdog_fields
      example_config_def watchdog_reset_rpc_def)

text \<open>
  C7, amended: with a session, \<^verbatim>\<open>reset_supervision_watchdog\<close> makes one call, the
  dispatch of an RPC that is the same in every state: its notification interval is 60000
  and its guard timer overhead is 5, the values written in the method. The method takes no
  configuration.
\<close>

theorem watchdog_reset_carries_fixed_values:
  assumes "session w = Some s"
  shows \<open>calls_during w (reset_supervision_watchdog w) = [Dispatch (tostring rpc)] \<and>
         watchdog_field ''supervision-notification-interval'' rpc = Some ''60000'' \<and>
         watchdog_field ''guard-timer-overhead'' rpc = Some ''5'' \<and>
         tostring rpc =
           ''<rpc xmlns="urn:ietf:params:xml:ns:netconf:base:1.0" message-id="1">'' @
           ''<supervision-watchdog-reset xmlns="urn:o-ran:supervision:1.0">'' @
           ''<supervision-notification-interval>60000</supervision-notification-interval>'' @
           ''<guard-timer-overhead>5</guard-timer-overhead>'' @
           ''</supervision-watchdog-reset></rpc>''\<close>
  using reset_supervision_watchdog_calls[OF assms] watchdog_fields watchdog_reset_rpc_text
  by (simp only: watchdog_reset_rpc_def simp_thms)

theorem watchdog_reset_carries_fixed_values_witness:
  "calls_during (example_world (Some (failing ''timed out'')))
     (reset_supervision_watchdog (example_world (Some (failing ''timed out'')))) =
     [Dispatch (tostring rpc)] \<and>
   watchdog_field ''supervision-notification-interval'' rpc = Some ''60000'' \<and>
   watchdog_field ''guard-timer-overhead'' rpc = Some ''5''"
  using watchdog_reset_carries_fixed_values
          [of "example_world (Some (failing ''timed out''))" "failing ''timed out''"]
  by (simp only: example_session simp_thms)

subsection \<open>Deleting a carrier\<close>

lemma delete_tx_connected:
  assumes "session w = Some s"
  shows "calls_during w (delete_tx_array_carrier name c a b g w) =
           [EditConfig ''running'' (delete_tx_payload name c a b g)]"
    and "fst (delete_tx_array_carrier name c a b g w) =
           (case rpc_reply s (sent w) (EditConfig ''running'' (delete_tx_payload name c a b g)) of
              Inl e \<Rightarrow> Returned None | Inr x \<Rightarrow> Returned (Some x))"
  using assms
  by (simp_all add: delete_tx_array_carrier_def calls_during_def call_session_def print_simps
      save_to_file_simps split: sum.splits)

lemma delete_rx_connected:
  assumes "session w = Some s"
  shows "calls_during w (delete_rx_array_carrier name c a b g t w) =
           [EditConfig ''running'' (delete_rx_payload name c a b g t)]"
    and "fst (delete_rx_array_carrier name c a b g t w) =
           (case rpc_reply s (sent w)
                   (EditConfig ''running'' (delete_rx_payload name c a b g t)) of
              Inl e \<Rightarrow> Returned None | Inr x \<Rightarrow> Returned (Some x))"
  using assms
  by (simp_all add: delete_rx_array_carrier_def calls_during_def call_session_def print_simps
      save_to_file_simps split: sum.splits)

lemma delete_payload_marks:
  \<open>contains ''nc:operation="delete"'' (delete_tx_payload name c a b g)\<close>
  \<open>contains ''nc:operation="delete"'' (delete_rx_payload name c a b g t)\<close>
  \<open>contains (''<name>'' @ name @ ''</name>'') (delete_tx_payload name c a b g)\<close>
  \<open>contains (''<name>'' @ name @ ''</name>'') (delete_rx_payload name c a b g t)\<close>
  by (simp_all add: delete_tx_payload_def delete_rx_payload_def contains_skip)

lemma save_to_file_stdout:
  "\<exists>l. stdout (save_to_file x m w) = stdout w @ [l]"
  by (simp add: save_to_file_def print_def append_file_def open_append_def
      split: sum.splits option.splits)

lemma delete_tx_stdout:
  assumes s: "session w = Some s"
  shows "rpc_reply s (sent w) (EditConfig ''running'' (delete_tx_payload name c a b g)) = Inl e \<Longrightarrow>
         stdout (snd (delete_tx_array_carrier name c a b g w)) =
           stdout w @ [''Failed to delete TX array carrier: '' @ e]"
    and "rpc_reply s (sent w) (EditConfig ''running'' (delete_tx_payload name c a b g)) = Inr x \<Longrightarrow>
         \<exists>l. stdout (snd (delete_tx_array_carrier name c a b g w)) =
           stdout w @ [''TX Array Carrier '' @ quoted name @ '' deleted successfully.'', l]"
proof -
  assume "rpc_reply s (sent w) (EditConfig ''running'' (delete_tx_payload name c a b g)) = Inl e"
  then show "stdout (snd (delete_tx_array_carrier name c a b g w)) =
           stdout w @ [''Failed to delete TX array carrier: '' @ e]"
    by (simp add: delete_tx_array_carrier_def s call_session_def print_def del: append.simps)
next
  let ?w1 = "w\<lparr>sent := sent w @ [EditConfig ''running'' (delete_tx_payload name c a b g)]\<rparr>"
  let ?w2 = "print (''TX Array Carrier '' @ quoted name @ '' deleted successfully.'') ?w1"
  assume r: "rpc_reply s (sent w) (EditConfig ''running'' (delete_tx_payload name c a b g)) = Inr x"
  obtain l where l: "stdout (save_to_file x ''TX Array Carrier Deletion'' ?w2) = stdout ?w2 @ [l]"
    using save_to_file_stdout by blast
  have "stdout (snd (delete_tx_array_carrier name c a b g w)) =
          stdout (save_to_file x ''TX Array Carrier Deletion'' ?w2)"
    using r by (simp add: delete_tx_array_carrier_def s call_session_def del: append.simps)
  also have "\<dots> = stdout w @ [''TX Array Carrier '' @ quoted name @ '' deleted successfully.'', l]"
    unfolding l by (simp add: print_def del: append.simps)
  finally show "\<exists>l. stdout (snd (delete_tx_array_carrier name c a b g w)) =
           stdout w @ [''TX Array Carrier '' @ quoted name @ '' deleted successfully.'', l]"
    by blast
qed

lemma delete_rx_stdout:
  assumes s: "session w = Some s"
  shows "rpc_reply s (sent w) (EditConfig ''running'' (delete_rx_payload name c a b g t)) = Inl e \<Longrightarrow>
         stdout (snd (delete_rx_array_carrier name c a b g t w)) =
           stdout w @ [''Failed to delete RX array carrier: '' @ e]"
    and "rpc_reply s (sent w) (EditConfig ''running'' (delete_rx_payload name c a b g t)) = Inr x \<Longrightarrow>
         \<exists>l. stdout (snd (delete_rx_array_carrier name c a b g t w)) =
           stdout w @ [''RX Array Carrier '' @ quoted name @ '' deleted successfully.'', l]"
proof -
  assume "rpc_reply s (sent w) (EditConfig ''running'' (delete_rx_payload name c a b g t)) = Inl e"
  then show "stdout (snd (delete_rx_array_carrier name c a b g t w)) =
           stdout w @ [''Failed to delete RX array carrier: '' @ e]"
    by (simp add: delete_rx_array_carrier_def s call_session_def print_def del: append.simps)
next
  let ?w1 = "w\<lparr>sent := sent w @ [EditConfig ''running'' (delete_rx_payload name c a b g t)]\<rparr>"
  let ?w2 = "print (''RX Array Carrier '' @ quoted name @ '' deleted successfully.'') ?w1"
  assume r: "rpc_reply s (sent w) (EditConfig ''running'' (delete_rx_payload name c a b g t)) = Inr x"
  obtain l where l: "stdout (save_to_file x ''RX Array Carrier Deletion'' ?w2) = stdout ?w2 @ [l]"
    using save_to_file_stdout by blast
  have "stdout (snd (delete_rx_array_carrier name c a b g t w)) =
          stdout (save_to_file x ''RX Array Carrier Deletion'' ?w2)"
    using r by (simp add: delete_rx_array_carrier_def s call_session_def del: append.simps)
  also have "\<dots> = stdout w @ [''RX Array Carrier '' @ quoted name @ '' deleted successfully.'', l]"
    unfolding l by (simp add: print_def del: append.simps)
  finally show "\<exists>l. stdout (snd (delete_rx_array_carrier name c a b g t w)) =
           stdout w @ [''RX Array Carrier '' @ quoted name @ '' deleted successfully.'', l]"
    by blast
qed

text \<open>
  C4, the claim as stated fails: on an element that lists no carrier,
  \<^verbatim>\<open>delete_tx_array_carrier\<close> and \<^verbatim>\<open>delete_rx_array_carrier\<close> send the delete
  edit-config all the same, and no read comes before it.
\<close>

theorem delete_sends_without_presence_check:
  "\<not> contains ''<name>TxArrayCarrier0</name>'' no_carriers_reply \<and>
   \<not> reads_before_editing
      (calls_during (example_world (Some (replying no_carriers_reply)))
         (delete_tx_array_carrier ''TxArrayCarrier0'' ''4150000000'' ''653616'' ''100000000''
            ''0.0'' (example_world (Some (replying no_carriers_reply))))) \<and>
   edit_config_payloads
      (calls_during (example_world (Some (replying no_carriers_reply)))
         (delete_tx_array_carrier ''TxArrayCarrier0'' ''4150000000'' ''653616'' ''100000000''
            ''0.0'' (example_world (Some (replying no_carriers_reply))))) =
     [delete_tx_payload ''TxArrayCarrier0'' ''4150000000'' ''653616'' ''100000000'' ''0.0''] \<and>
   \<not> reads_before_editing
      (calls_during (example_world (Some (replying no_carriers_reply)))
         (delete_rx_array_carrier ''RxArrayCarrier0'' ''4150000000'' ''653616'' ''100000000''
            ''0.0'' ''25600'' (example_world (Some (replying no_carriers_reply)))))"
  by (simp add: delete_tx_connected(1)[OF example_session]
      delete_rx_connected(1)[OF example_session] no_carriers_reply_def)

text \<open>
  C4, amended: with a session, \<^verbatim>\<open>delete_tx_array_carrier\<close> and
  \<^verbatim>\<open>delete_rx_array_carrier\<close> make exactly one call, whatever the element holds: the
  edit-config whose payload has the delete marker and the carrier name. No read comes
  before it. The call never raises: when the element rejects the request, the method
  prints the line \<^verbatim>\<open>Failed to delete TX array carrier:\<close> (respectively
  \<^verbatim>\<open>RX\<close>) with the text of the exception, and nothing else, and returns
  \<^verbatim>\<open>None\<close>. When the element accepts it, the method prints that the carrier was
  deleted, then the one line of \<^verbatim>\<open>save_to_file\<close>, and returns the reply.
\<close>

theorem delete_is_one_unconditional_edit_config:
  assumes "session w = Some s"
  shows
    \<open>calls_during w (delete_tx_array_carrier name c a b gain w) =
       [EditConfig ''running'' (delete_tx_payload name c a b gain)] \<and>
     calls_during w (delete_rx_array_carrier name c a b gain_correction n_ta_offset w) =
       [EditConfig ''running'' (delete_rx_payload name c a b gain_correction n_ta_offset)] \<and>
     \<not> raises (fst (delete_tx_array_carrier name c a b gain w)) \<and>
     \<not> raises (fst (delete_rx_array_carrier name c a b gain_correction n_ta_offset w)) \<and>
     (rpc_reply s (sent w) (EditConfig ''running'' (delete_tx_payload name c a b gain)) = Inl e \<longrightarrow>
        fst (delete_tx_array_carrier name c a b gain w) = Returned None \<and>
        stdout (snd (delete_tx_array_carrier name c a b gain w)) =
          stdout w @ [''Failed to delete TX array carrier: '' @ e]) \<and>
     (rpc_reply s (sent w)
        (EditConfig ''running'' (delete_rx_payload name c a b gain_correction n_ta_offset)) =
        Inl e \<longrightarrow>
        fst (delete_rx_array_carrier name c a b gain_correction n_ta_offset w) =
          Returned None \<and>
        stdout (snd (delete_rx_array_carrier name c a b gain_correction n_ta_offset w)) =
          stdout w @ [''Failed to delete RX array carrier: '' @ e]) \<and>
     (rpc_reply s (sent w) (EditConfig ''running'' (delete_tx_payload name c a b gain)) = Inr x \<longrightarrow>
        fst (delete_tx_array_carrier name c a b gain w) = Returned (Some x) \<and>
        (\<exists>l. stdout (snd (delete_tx_array_carrier name c a b gain w)) =
           stdout w @ [''TX Array Carrier '' @ quoted name @ '' deleted successfully.'', l])) \<and>
     (rpc_reply s (sent w)
        (EditConfig ''running'' (delete_rx_payload name c a b gain_correction n_ta_offset)) =
        Inr x \<longrightarrow>
        fst (delete_rx_array_carrier name c a b gain_correction n_ta_offset w) =
          Returned (Some x) \<and>
        (\<exists>l. stdout (snd (delete_rx_array_carrier name c a b gain_correction n_ta_offset w)) =
           stdout w @ [''RX Array Carrier '' @ quoted name @ '' deleted successfully.'', l])) \<and>
     contains ''nc:operation="delete"'' (delete_tx_payload name c a b gain) \<and>
     contains ''nc:operation="delete"''
       (delete_rx_payload name c a b gain_correction n_ta_offset) \<and>
     contains (''<name>'' @ name @ ''</name>'') (delete_tx_payload name c a b gain) \<and>
     contains (''<name>'' @ name @ ''</name>'')
       (delete_rx_payload name c a b gain_correction n_ta_offset)\<close>
proof (intro conjI impI delete_tx_connected(1)[OF assms] delete_rx_connected(1)[OF assms]
    delete_payload_marks)
  show "\<not> raises (fst (delete_tx_array_carrier name c a b gain w))"
    by (simp add: delete_tx_connected(2)[OF assms] split: sum.splits)
  show "\<not> raises (fst (delete_rx_array_carrier name c a b gain_correction n_ta_offset w))"
    by (simp add: delete_rx_connected(2)[OF assms] split: sum.splits)
next
  assume r: "rpc_reply s (sent w) (EditConfig ''running'' (delete_tx_payload name c a b gain)) =
    Inl e"
  then show "fst (delete_tx_array_carrier name c a b gain w) = Returned None"
    by (simp add: delete_tx_connected(2)[OF assms])
  from r show "stdout (snd (delete_tx_array_carrier name c a b gain w)) =
          stdout w @ [''Failed to delete TX array carrier: '' @ e]"
    by (rule delete_tx_stdout(1)[OF assms])
next
  assume r: "rpc_reply s (sent w)
        (EditConfig ''running'' (delete_rx_payload name c a b gain_correction n_ta_offset)) =
        Inl e"
  then show "fst (delete_rx_array_carrier name c a b gain_correction n_ta_offset w) =
    Returned None"
    by (simp add: delete_rx_connected(2)[OF assms])
  from r show "stdout (snd (delete_rx_array_carrier name c a b gain_correction n_ta_offset w)) =
          stdout w @ [''Failed to delete RX array carrier: '' @ e]"
    by (rule delete_rx_stdout(1)[OF assms])
next
  assume r: "rpc_reply s (sent w) (EditConfig ''running'' (delete_tx_payload name c a b gain)) =
    Inr x"
  then show "fst (delete_tx_array_carrier name c a b gain w) = Returned (Some x)"
    by (simp add: delete_tx_connected(2)[OF assms])
  from r show "\<exists>l. stdout (snd (delete_tx_array_carrier name c a b gain w)) =
           stdout w @ [''TX Array Carrier '' @ quoted name @ '' deleted successfully.'', l]"
    by (rule delete_tx_stdout(2)[OF assms])
next
  assume r: "rpc_reply s (sent w)
        (EditConfig ''running'' (delete_rx_payload name c a b gain_correction n_ta_offset)) =
        Inr x"
  then show "fst (delete_rx_array_carrier name c a b gain_correction n_ta_offset w) =
    Returned (Some x)"
    by (simp add: delete_rx_connected(2)[OF assms])
  from r show "\<exists>l. stdout (snd (delete_rx_array_carrier name c a b gain_correction n_ta_offset w)) =
           stdout w @ [''RX Array Carrier '' @ quoted name @ '' deleted successfully.'', l]"
    by (rule delete_rx_stdout(2)[OF assms])
qed

lemma example_stdout: "stdout (example_world so) = []"
  by (simp add: example_world_def)

theorem delete_is_one_unconditional_edit_config_witness:
  "calls_during (example_world (Some (failing ''data-missing'')))
     (delete_tx_array_carrier ''TxArrayCarrier0'' ''4150000000'' ''653616'' ''100000000''
        ''0.0'' (example_world (Some (failing ''data-missing'')))) =
     [EditConfig ''running''
        (delete_tx_payload ''TxArrayCarrier0'' ''4150000000'' ''653616'' ''100000000''
           ''0.0'')] \<and>
   fst (delete_tx_array_carrier ''TxArrayCarrier0'' ''4150000000'' ''653616'' ''100000000''
          ''0.0'' (example_world (Some (failing ''data-missing'')))) = Returned None \<and>
   stdout (snd (delete_tx_array_carrier ''TxArrayCarrier0'' ''4150000000'' ''653616''
                  ''100000000'' ''0.0'' (example_world (Some (failing ''data-missing''))))) =
     [''Failed to delete TX array carrier: data-missing''] \<and>
   fst (delete_rx_array_carrier ''RxArrayCarrier0'' ''4150000000'' ''653616'' ''100000000''
          ''0.0'' ''25600'' (example_world (Some (failing ''data-missing'')))) = Returned None \<and>
   stdout (snd (delete_rx_array_carrier ''RxArrayCarrier0'' ''4150000000'' ''653616''
                  ''100000000'' ''0.0'' ''25600''
                  (example_world (Some (failing ''data-missing''))))) =
     [''Failed to delete RX array carrier: data-missing''] \<and>
   fst (delete_tx_array_carrier ''TxArrayCarrier0'' ''4150000000'' ''653616'' ''100000000''
          ''0.0'' (example_world (Some (replying no_carriers_reply)))) =
     Returned (Some no_carriers_reply)"
  using delete_is_one_unconditional_edit_config
          [of "example_world (Some (failing ''data-missing''))" "failing ''data-missing''"
              "''TxArrayCarrier0''" "''4150000000''" "''653616''" "''100000000''" "''0.0''"
              "''0.0''" "''25600''" "''data-missing''" "[]"]
        delete_is_one_unconditional_edit_config
          [of "example_world (Some (failing ''data-missing''))" "failing ''data-missing''"
              "''RxArrayCarrier0''" "''4150000000''" "''653616''" "''100000000''" "''0.0''"
              "''0.0''" "''25600''" "''data-missing''" "[]"]
        delete_is_one_unconditional_edit_config
          [of "example_world (Some (replying no_carriers_reply))" "replying no_carriers_reply"
              "''TxArrayCarrier0''" "''4150000000''" "''653616''" "''100000000''" "''0.0''"
              "''0.0''" "''25600''" "[]" no_carriers_reply]
  by (simp add: example_session example_stdout failing_simps replying_simps)

subsection \<open>Calling a method without a session\<close>

text \<open>
  C5, the claim as stated fails: without a session, \<^verbatim>\<open>check_supervision_status\<close>
  returns \<^verbatim>\<open>None\<close>; nothing is raised.
\<close>

theorem offline_call_raises_nothing:
  "session (example_world None) = None \<and>
   fst (check_supervision_status (example_world None)) = Returned None \<and>
   \<not> raises (fst (check_supervision_status (example_world None)))"
  by (simp add: check_supervision_status_def example_session)

text \<open>
  C5, amended: a method called when the session field is \<^verbatim>\<open>None\<close> raises nothing. It
  prints one line and returns \<^verbatim>\<open>None\<close>, or the pair of \<^verbatim>\<open>None\<close> for
  \<^verbatim>\<open>retrieve_carrier_status\<close>. The line says that there is no session; in the three
  methods that do not test the session it is the line of their handler, with the text of
  the caught exception. No call is made on a session, the session field stays
  \<^verbatim>\<open>None\<close> and no file is written.
\<close>

theorem offline_call_reports_and_returns_none:
  assumes "session w = None"
  shows "fst (invoke op w) = Returned (offline_value op) \<and>
         \<not> raises (fst (invoke op w)) \<and>
         calls_during w (invoke op w) = [] \<and>
         sent (snd (invoke op w)) = sent w \<and>
         session (snd (invoke op w)) = None \<and>
         stdout (snd (invoke op w)) = stdout w @ [offline_report op] \<and>
         files (snd (invoke op w)) = files w"
  using assms
  by (cases op)
     (simp_all add: calls_during_def print_simps save_capabilities_def
        check_supervision_status_def subscribe_to_netconf_notifications_def
        reset_supervision_watchdog_def get_available_streams_def receive_notifications_def
        configure_call_home_def retrieve_tx_array_carrier_info_def
        retrieve_rx_array_carrier_info_def configure_tx_array_carrier_def
        configure_rx_array_carrier_def delete_tx_array_carrier_def delete_rx_array_carrier_def
        get_running_config_def retrieve_carrier_status_def activate_carriers_def
        deactivate_carriers_def retrieve_ru_states_def get_all_state_data_def
        close_connection_def del: str_of_exception.simps)

theorem offline_call_reports_and_returns_none_witness:
  "fst (invoke (ActivateCarriers ''TxArrayCarrier0'' ''RxArrayCarrier0'') (example_world None)) =
     Returned PyNone \<and>
   sent (snd (invoke (ActivateCarriers ''TxArrayCarrier0'' ''RxArrayCarrier0'')
                (example_world None))) = [] \<and>
   stdout (snd (invoke (ActivateCarriers ''TxArrayCarrier0'' ''RxArrayCarrier0'')
                  (example_world None))) =
     [''No active session to the RU. Please connect first.'']"
  using offline_call_reports_and_returns_none
          [of "example_world None" "ActivateCarriers ''TxArrayCarrier0'' ''RxArrayCarrier0''"]
  by (simp add: example_session example_world_def no_session_msg_def)

end
